theory Spec2Isabelle
  imports Main "HOL-Library.AList"
begin

section \<open>JavaScript values\<close>

text \<open>
  The statement facade of \<^verbatim>\<open>expo-sqlite\<close> (\<^verbatim>\<open>SQLiteStatement.ts\<close>) moves untyped
  JavaScript values between the caller and the native statement handle. The values that
  reach it are \<^verbatim>\<open>undefined\<close>, \<^verbatim>\<open>null\<close>, booleans, numbers, strings, arrays and
  other objects. The facade never inspects the payload of a number or a string, so a number
  carries an integer here. \<open>JObj m\<close> is an ordinary object, given by the list \<open>m\<close> of
  its own properties in the order of their first assignment: they are writable data
  properties, and the object inherits from \<^verbatim>\<open>Object.prototype\<close>, as an object literal
  does. \<open>JArr xs\<close> is an ordinary array, which inherits from \<^verbatim>\<open>Array.prototype\<close>.
\<close>

datatype jsval =
    JUndefined
  | JNull
  | JBool bool
  | JNum int
  | JStr string
  | JArr "jsval list"
  | JObj "(string \<times> jsval) list"

text \<open>The operator \<^verbatim>\<open>typeof\<close>: \<^verbatim>\<open>null\<close> and arrays answer \<^verbatim>\<open>'object'\<close>.\<close>

fun js_typeof :: "jsval \<Rightarrow> string" where
  "js_typeof JUndefined = ''undefined''"
| "js_typeof JNull = ''object''"
| "js_typeof (JBool b) = ''boolean''"
| "js_typeof (JNum n) = ''number''"
| "js_typeof (JStr s) = ''string''"
| "js_typeof (JArr xs) = ''object''"
| "js_typeof (JObj m) = ''object''"

text \<open>\<^verbatim>\<open>Array.isArray(v)\<close>.\<close>

fun js_isArray :: "jsval \<Rightarrow> bool" where
  "js_isArray (JArr xs) = True"
| "js_isArray v = False"

text \<open>The loose comparison \<^verbatim>\<open>v == null\<close>, true of \<^verbatim>\<open>null\<close> and \<^verbatim>\<open>undefined\<close> alike.\<close>

fun js_eq_null :: "jsval \<Rightarrow> bool" where
  "js_eq_null JUndefined = True"
| "js_eq_null JNull = True"
| "js_eq_null v = False"

text \<open>An array read \<^verbatim>\<open>xs[i]\<close>: past the end JavaScript answers \<^verbatim>\<open>undefined\<close>.\<close>

definition js_index :: "jsval list \<Rightarrow> nat \<Rightarrow> jsval" where
  "js_index xs i = (if i < length xs then xs ! i else JUndefined)"

section \<open>Parameter normalizer\<close>

text \<open>
  \<^verbatim>\<open>normalizeParams(...params)\<close>, lines 252 to 268. The argument is the rest array
  \<open>params\<close>; the result object \<^verbatim>\<open>{ params, shouldPassAsObject }\<close> is the pair
  \<open>(bindParams, shouldPassAsObject)\<close>. The three assignments to \<^verbatim>\<open>bindParams\<close>
  are the three successive bindings of the \<open>let\<close>.
\<close>

definition normalizeParams :: "jsval list \<Rightarrow> jsval \<times> bool" where
  "normalizeParams params =
     (let bindParams = (if length params > 1 then JArr params else js_index params 0);
          bindParams = (if js_eq_null bindParams then JArr [] else bindParams);
          bindParams = (if js_typeof bindParams \<noteq> ''object'' then JArr [bindParams] else bindParams);
          shouldPassAsObject = (\<not> js_isArray bindParams)
      in (bindParams, shouldPassAsObject))"

section \<open>Row composer\<close>

text \<open>
  A row is the object \<^verbatim>\<open>{}\<close> after the assignments \<^verbatim>\<open>row[name] = value\<close>, and is
  reported by the list of its own properties. The order of the list is a representation
  only: nothing below speaks of the order in which a row enumerates its keys.
\<close>

type_synonym row = "(string \<times> jsval) list"

text \<open>
  What an assignment does to the own properties depends on what the object inherits, so
  the object under construction carries its prototype with it: the one every object
  literal starts with, or the value that an assignment to \<^verbatim>\<open>__proto__\<close> has put in its
  place.
\<close>

datatype prototype =
    ObjectPrototype
  | NullPrototype
  | ArrayValue "jsval list"
  | ObjectValue "(string \<times> jsval) list"

text \<open>The object literal \<^verbatim>\<open>{}\<close>: no own property, and the prototype of every literal.\<close>

definition emptyObject :: "row \<times> prototype" where
  "emptyObject = ([], ObjectPrototype)"

text \<open>
  Whether a lookup of \<^verbatim>\<open>__proto__\<close> along the prototype chain ends at the accessor of
  \<^verbatim>\<open>Object.prototype\<close>. It does not when the chain is cut by \<^verbatim>\<open>null\<close>, or when an
  object on the way has a data property of that name. An array has only its indices and
  \<^verbatim>\<open>length\<close> as own properties, and \<^verbatim>\<open>Array.prototype\<close> has no such property.
\<close>

fun reachesProtoSetter :: "prototype \<Rightarrow> bool" where
  "reachesProtoSetter ObjectPrototype = True"
| "reachesProtoSetter NullPrototype = False"
| "reachesProtoSetter (ArrayValue xs) = True"
| "reachesProtoSetter (ObjectValue m) = (''__proto__'' \<notin> set (map fst m))"

text \<open>
  The setter of \<^verbatim>\<open>Object.prototype.__proto__\<close>: an object or \<^verbatim>\<open>null\<close> becomes the
  prototype, and any other value is ignored.
\<close>

fun setPrototypeOf :: "prototype \<Rightarrow> jsval \<Rightarrow> prototype" where
  "setPrototypeOf p JNull = NullPrototype"
| "setPrototypeOf p (JArr xs) = ArrayValue xs"
| "setPrototypeOf p (JObj m) = ObjectValue m"
| "setPrototypeOf p v = p"

text \<open>
  The assignment \<^verbatim>\<open>row[k] = v\<close>. An own property \<open>k\<close> takes the new value in place.
  Without one, the key \<^verbatim>\<open>__proto__\<close> runs the inherited setter when the chain reaches
  it, and no own property is created. In every other case a new own property is appended:
  whatever else an ordinary object or array lets the row inherit is a writable data
  property, which an assignment shadows. \<open>AList.update\<close> is the replacement in place or
  else the append.
\<close>

fun js_set :: "row \<times> prototype \<Rightarrow> string \<Rightarrow> jsval \<Rightarrow> row \<times> prototype" where
  "js_set (row, proto) k v =
     (if k = ''__proto__'' \<and> k \<notin> set (map fst row) \<and> reachesProtoSetter proto
      then (row, setPrototypeOf proto v)
      else (AList.update k v row, proto))"

text \<open>
  The errors of the layer: the \<^verbatim>\<open>Error\<close> thrown by the row composer, whose message
  carries the two counts, and whatever the native layer throws or rejects with, which the
  facade passes on untouched.
\<close>

datatype error =
    CountMismatch nat nat
  | NativeError string

text \<open>
  The loop \<^verbatim>\<open>for (let i = 0; i < columnNames.length; i++) row[columnNames[i]] = columnValues[i]\<close>,
  which stands word for word in \<^verbatim>\<open>composeRow\<close> (lines 281 to 283) and in
  \<^verbatim>\<open>composeRows\<close> (lines 307 to 309), from index \<open>i\<close> on.
\<close>

function assignColumns ::
  "string list \<Rightarrow> jsval list \<Rightarrow> nat \<Rightarrow> row \<times> prototype \<Rightarrow> row \<times> prototype" where
  "assignColumns columnNames columnValues i obj =
     (if i < length columnNames
      then assignColumns columnNames columnValues (Suc i)
             (js_set obj (columnNames ! i) (js_index columnValues i))
      else obj)"
  by pat_completeness auto
termination
  by (relation "measure (\<lambda>(columnNames, columnValues, i, obj). length columnNames - i)") auto

declare assignColumns.simps [simp del]

text \<open>
  \<^verbatim>\<open>composeRow(columnNames, columnValues)\<close>, lines 274 to 285. The object returned is
  reported by its own properties.
\<close>

definition composeRow :: "string list \<Rightarrow> jsval list \<Rightarrow> error + row" where
  "composeRow columnNames columnValues =
     (if length columnNames \<noteq> length columnValues
      then Inl (CountMismatch (length columnNames) (length columnValues))
      else Inr (fst (assignColumns columnNames columnValues 0 emptyObject)))"

text \<open>
  The loop \<^verbatim>\<open>for (const columnValues of columnValuesList)\<close> of \<^verbatim>\<open>composeRows\<close>,
  pushing one row per element onto \<^verbatim>\<open>results\<close>.
\<close>

fun pushRows :: "string list \<Rightarrow> jsval list list \<Rightarrow> row list \<Rightarrow> row list" where
  "pushRows columnNames [] results = results"
| "pushRows columnNames (columnValues # rest) results =
     pushRows columnNames rest
       (results @ [fst (assignColumns columnNames columnValues 0 emptyObject)])"

text \<open>
  \<^verbatim>\<open>composeRows(columnNames, columnValuesList)\<close>, lines 291 to 313. The read
  \<^verbatim>\<open>columnValuesList[0]\<close> happens only after the list was found non-empty.
\<close>

definition composeRows :: "string list \<Rightarrow> jsval list list \<Rightarrow> error + row list" where
  "composeRows columnNames columnValuesList =
     (if length columnValuesList = 0 then Inr []
      else if length columnNames \<noteq> length (columnValuesList ! 0)
      then Inl (CountMismatch (length columnNames) (length (columnValuesList ! 0)))
      else Inr (pushRows columnNames columnValuesList []))"

section \<open>Native statement handle\<close>

text \<open>
  \<^verbatim>\<open>NativeStatement\<close> is a declared class: its methods are implemented outside
  TypeScript. They are parameters here, functions on an abstract native state \<open>'s\<close> that a
  call may change, each answering a value or an error. A get-one method answers
  \<^verbatim>\<open>SQLiteColumnValues | null | undefined\<close>, the type \<open>fetched\<close>. The two
  \<^verbatim>\<open>getColumnNames\<close> methods carry the prefix \<open>native\<close>, to tell them from the
  facade's methods of the same name. An asynchronous method is modelled as the call that
  its \<^verbatim>\<open>await\<close> completes, a rejected promise as the error; calls on one statement do
  not overlap.
\<close>

datatype fetched =
    Values "jsval list"
  | AbsentNull
  | AbsentUndefined

record ('db, 's) NativeStatement =
  arrayGetAsync :: "'db \<Rightarrow> jsval \<Rightarrow> 's \<Rightarrow> (error + fetched) \<times> 's"
  objectGetAsync :: "'db \<Rightarrow> jsval \<Rightarrow> 's \<Rightarrow> (error + fetched) \<times> 's"
  arrayGetAllAsync :: "'db \<Rightarrow> jsval \<Rightarrow> 's \<Rightarrow> (error + jsval list list) \<times> 's"
  objectGetAllAsync :: "'db \<Rightarrow> jsval \<Rightarrow> 's \<Rightarrow> (error + jsval list list) \<times> 's"
  nativeGetColumnNamesAsync :: "'s \<Rightarrow> (error + string list) \<times> 's"
  arrayGetSync :: "'db \<Rightarrow> jsval \<Rightarrow> 's \<Rightarrow> (error + fetched) \<times> 's"
  objectGetSync :: "'db \<Rightarrow> jsval \<Rightarrow> 's \<Rightarrow> (error + fetched) \<times> 's"
  arrayGetAllSync :: "'db \<Rightarrow> jsval \<Rightarrow> 's \<Rightarrow> (error + jsval list list) \<times> 's"
  objectGetAllSync :: "'db \<Rightarrow> jsval \<Rightarrow> 's \<Rightarrow> (error + jsval list list) \<times> 's"
  nativeGetColumnNamesSync :: "'s \<Rightarrow> (error + string list) \<times> 's"

text \<open>
  What crosses the boundary is recorded: the world is the native state together with the
  list of native calls made so far, oldest first, each get call with the bind parameters it
  was handed. \<open>invoke c f\<close> is one native call \<open>f\<close>, logged as \<open>c\<close>.
\<close>

datatype native_call =
    CallGetColumnNames
  | CallArrayGet jsval
  | CallObjectGet jsval
  | CallArrayGetAll jsval
  | CallObjectGetAll jsval

record 's world =
  native :: 's
  calls :: "native_call list"

definition invoke :: "native_call \<Rightarrow> ('s \<Rightarrow> 'r \<times> 's) \<Rightarrow> 's world \<Rightarrow> 'r \<times> 's world" where
  "invoke c f w = (case f (native w) of (r, s') \<Rightarrow> (r, \<lparr>native = s', calls = calls w @ [c]\<rparr>))"

section \<open>Statement facade\<close>

text \<open>
  The class \<^verbatim>\<open>SQLiteStatement\<close> has two fields, both read-only, and no other state.
  Each method takes the world and returns its result with the world after it; an exception
  is the result \<open>Inl\<close>.
\<close>

record ('db, 's) SQLiteStatement =
  nativeDatabase :: 'db
  nativeStatement :: "('db, 's) NativeStatement"

text \<open>\<^verbatim>\<open>getColumnNamesSync()\<close>, lines 224 to 226, and \<^verbatim>\<open>getColumnNamesAsync()\<close>, lines 115 to 117.\<close>

definition getColumnNamesSync ::
  "('db, 's) SQLiteStatement \<Rightarrow> 's world \<Rightarrow> (error + string list) \<times> 's world" where
  "getColumnNamesSync stmt =
     invoke CallGetColumnNames (nativeGetColumnNamesSync (nativeStatement stmt))"

definition getColumnNamesAsync ::
  "('db, 's) SQLiteStatement \<Rightarrow> 's world \<Rightarrow> (error + string list) \<times> 's world" where
  "getColumnNamesAsync stmt =
     invoke CallGetColumnNames (nativeGetColumnNamesAsync (nativeStatement stmt))"

text \<open>
  \<^verbatim>\<open>getSync(...params)\<close>, lines 193 to 200, and \<^verbatim>\<open>getAsync(...params)\<close>, lines 85 to
  92. The test \<^verbatim>\<open>columnValues != null\<close> fails for \<^verbatim>\<open>null\<close> and for \<^verbatim>\<open>undefined\<close>,
  and the method then returns the literal \<^verbatim>\<open>null\<close>.
\<close>

definition getSync ::
  "('db, 's) SQLiteStatement \<Rightarrow> jsval list \<Rightarrow> 's world \<Rightarrow> (error + jsval) \<times> 's world" where
  "getSync stmt params w =
     (case normalizeParams params of (bindParams, shouldPassAsObject) \<Rightarrow>
       (case getColumnNamesSync stmt w of
          (Inl e, w1) \<Rightarrow> (Inl e, w1)
        | (Inr columnNames, w1) \<Rightarrow>
            (case (if shouldPassAsObject
                   then invoke (CallObjectGet bindParams)
                          (objectGetSync (nativeStatement stmt) (nativeDatabase stmt) bindParams) w1
                   else invoke (CallArrayGet bindParams)
                          (arrayGetSync (nativeStatement stmt) (nativeDatabase stmt) bindParams) w1) of
               (Inl e, w2) \<Rightarrow> (Inl e, w2)
             | (Inr columnValues, w2) \<Rightarrow>
                 (case columnValues of
                    Values vs \<Rightarrow>
                      (case composeRow columnNames vs of
                         Inl e \<Rightarrow> (Inl e, w2)
                       | Inr row \<Rightarrow> (Inr (JObj row), w2))
                  | AbsentNull \<Rightarrow> (Inr JNull, w2)
                  | AbsentUndefined \<Rightarrow> (Inr JNull, w2)))))"

definition getAsync ::
  "('db, 's) SQLiteStatement \<Rightarrow> jsval list \<Rightarrow> 's world \<Rightarrow> (error + jsval) \<times> 's world" where
  "getAsync stmt params w =
     (case normalizeParams params of (bindParams, shouldPassAsObject) \<Rightarrow>
       (case getColumnNamesAsync stmt w of
          (Inl e, w1) \<Rightarrow> (Inl e, w1)
        | (Inr columnNames, w1) \<Rightarrow>
            (case (if shouldPassAsObject
                   then invoke (CallObjectGet bindParams)
                          (objectGetAsync (nativeStatement stmt) (nativeDatabase stmt) bindParams) w1
                   else invoke (CallArrayGet bindParams)
                          (arrayGetAsync (nativeStatement stmt) (nativeDatabase stmt) bindParams) w1) of
               (Inl e, w2) \<Rightarrow> (Inl e, w2)
             | (Inr columnValues, w2) \<Rightarrow>
                 (case columnValues of
                    Values vs \<Rightarrow>
                      (case composeRow columnNames vs of
                         Inl e \<Rightarrow> (Inl e, w2)
                       | Inr row \<Rightarrow> (Inr (JObj row), w2))
                  | AbsentNull \<Rightarrow> (Inr JNull, w2)
                  | AbsentUndefined \<Rightarrow> (Inr JNull, w2)))))"

text \<open>\<^verbatim>\<open>allSync(...params)\<close>, lines 212 to 219, and \<^verbatim>\<open>allAsync(...params)\<close>, lines 103 to 110.\<close>

definition allSync ::
  "('db, 's) SQLiteStatement \<Rightarrow> jsval list \<Rightarrow> 's world \<Rightarrow> (error + row list) \<times> 's world" where
  "allSync stmt params w =
     (case normalizeParams params of (bindParams, shouldPassAsObject) \<Rightarrow>
       (case getColumnNamesSync stmt w of
          (Inl e, w1) \<Rightarrow> (Inl e, w1)
        | (Inr columnNames, w1) \<Rightarrow>
            (case (if shouldPassAsObject
                   then invoke (CallObjectGetAll bindParams)
                          (objectGetAllSync (nativeStatement stmt) (nativeDatabase stmt) bindParams) w1
                   else invoke (CallArrayGetAll bindParams)
                          (arrayGetAllSync (nativeStatement stmt) (nativeDatabase stmt) bindParams) w1) of
               (Inl e, w2) \<Rightarrow> (Inl e, w2)
             | (Inr columnValuesList, w2) \<Rightarrow> (composeRows columnNames columnValuesList, w2))))"

definition allAsync ::
  "('db, 's) SQLiteStatement \<Rightarrow> jsval list \<Rightarrow> 's world \<Rightarrow> (error + row list) \<times> 's world" where
  "allAsync stmt params w =
     (case normalizeParams params of (bindParams, shouldPassAsObject) \<Rightarrow>
       (case getColumnNamesAsync stmt w of
          (Inl e, w1) \<Rightarrow> (Inl e, w1)
        | (Inr columnNames, w1) \<Rightarrow>
            (case (if shouldPassAsObject
                   then invoke (CallObjectGetAll bindParams)
                          (objectGetAllAsync (nativeStatement stmt) (nativeDatabase stmt) bindParams) w1
                   else invoke (CallArrayGetAll bindParams)
                          (arrayGetAllAsync (nativeStatement stmt) (nativeDatabase stmt) bindParams) w1) of
               (Inl e, w2) \<Rightarrow> (Inl e, w2)
             | (Inr columnValuesList, w2) \<Rightarrow> (composeRows columnNames columnValuesList, w2))))"

text \<open>
  The generators \<^verbatim>\<open>eachSync\<close> (lines 167 to 181) and \<^verbatim>\<open>eachAsync\<close> (lines 60 to 74),
  as a consumer sees them who iterates to the end: the rows yielded, in order, then
  \<open>None\<close> when the generator returned or \<open>Some e\<close> when it threw \<open>e\<close>, and the world
  after the last native call. \<open>eachLoop\<close> is the \<^verbatim>\<open>do ... while (result != null)\<close>
  loop, \<open>yielded\<close> the rows handed out so far. Nothing bounds the number of rows a native
  handle answers, so the loop is a partial function: \<open>None\<close> is the iteration that never
  ends.
\<close>

partial_function (option) eachLoop ::
  "('db \<Rightarrow> jsval \<Rightarrow> 's world \<Rightarrow> (error + fetched) \<times> 's world) \<Rightarrow> 'db \<Rightarrow> jsval \<Rightarrow>
   string list \<Rightarrow> row list \<Rightarrow> 's world \<Rightarrow> ((row list \<times> error option) \<times> 's world) option" where
  "eachLoop func db bindParams columnNames yielded w =
     (case func db bindParams w of
        (Inl e, w') \<Rightarrow> Some ((yielded, Some e), w')
      | (Inr result, w') \<Rightarrow>
          (case result of
             Values vs \<Rightarrow>
               (case composeRow columnNames vs of
                  Inl e \<Rightarrow> Some ((yielded, Some e), w')
                | Inr row \<Rightarrow> eachLoop func db bindParams columnNames (yielded @ [row]) w')
           | AbsentNull \<Rightarrow> Some ((yielded, None), w')
           | AbsentUndefined \<Rightarrow> Some ((yielded, None), w')))"

definition eachSync ::
  "('db, 's) SQLiteStatement \<Rightarrow> jsval list \<Rightarrow> 's world \<Rightarrow>
   ((row list \<times> error option) \<times> 's world) option" where
  "eachSync stmt params w =
     (case normalizeParams params of (bindParams, shouldPassAsObject) \<Rightarrow>
       (let func = (if shouldPassAsObject
                    then (\<lambda>db p. invoke (CallObjectGet p) (objectGetSync (nativeStatement stmt) db p))
                    else (\<lambda>db p. invoke (CallArrayGet p) (arrayGetSync (nativeStatement stmt) db p)))
        in (case getColumnNamesSync stmt w of
              (Inl e, w1) \<Rightarrow> Some (([], Some e), w1)
            | (Inr columnNames, w1) \<Rightarrow>
                eachLoop func (nativeDatabase stmt) bindParams columnNames [] w1)))"

definition eachAsync ::
  "('db, 's) SQLiteStatement \<Rightarrow> jsval list \<Rightarrow> 's world \<Rightarrow>
   ((row list \<times> error option) \<times> 's world) option" where
  "eachAsync stmt params w =
     (case normalizeParams params of (bindParams, shouldPassAsObject) \<Rightarrow>
       (let func = (if shouldPassAsObject
                    then (\<lambda>db p. invoke (CallObjectGet p) (objectGetAsync (nativeStatement stmt) db p))
                    else (\<lambda>db p. invoke (CallArrayGet p) (arrayGetAsync (nativeStatement stmt) db p)))
        in (case getColumnNamesAsync stmt w of
              (Inl e, w1) \<Rightarrow> Some (([], Some e), w1)
            | (Inr columnNames, w1) \<Rightarrow>
                eachLoop func (nativeDatabase stmt) bindParams columnNames [] w1)))"

section \<open>Observing the native boundary\<close>

text \<open>The number of \<^verbatim>\<open>getColumnNames\<close> requests that have reached the native layer.\<close>

definition columnNameFetches :: "'s world \<Rightarrow> nat" where
  "columnNameFetches w = length (filter (\<lambda>c. c = CallGetColumnNames) (calls w))"

text \<open>
  \<open>nativeSteps g n s\<close> makes \<open>n\<close> successive calls of a native method \<open>g\<close> from the
  state \<open>s\<close> and lists the answers: the result set a cursor goes through.
\<close>

fun nativeSteps :: "('s \<Rightarrow> 'r \<times> 's) \<Rightarrow> nat \<Rightarrow> 's \<Rightarrow> 'r list \<times> 's" where
  "nativeSteps g 0 s = ([], s)"
| "nativeSteps g (Suc n) s =
     (case g s of (r, s') \<Rightarrow> (case nativeSteps g n s' of (rs, s'') \<Rightarrow> (r # rs, s'')))"

fun isAbsent :: "fetched \<Rightarrow> bool" where
  "isAbsent (Values vs) = False"
| "isAbsent AbsentNull = True"
| "isAbsent AbsentUndefined = True"

subsection \<open>A cursor over a fixed result set\<close>

text \<open>
  A native handle to instantiate the facade with: its state is the list of rows not yet
  fetched, get-one hands out the next row or the marker \<open>absent\<close>, get-all hands out
  what is left, and the column names are fixed.
\<close>

definition cursorGet ::
  "fetched \<Rightarrow> 'db \<Rightarrow> jsval \<Rightarrow> jsval list list \<Rightarrow> (error + fetched) \<times> jsval list list" where
  "cursorGet absent db p s =
     (case s of [] \<Rightarrow> (Inr absent, []) | r # rest \<Rightarrow> (Inr (Values r), rest))"

definition cursorGetAll ::
  "'db \<Rightarrow> jsval \<Rightarrow> jsval list list \<Rightarrow> (error + jsval list list) \<times> jsval list list" where
  "cursorGetAll db p s = (Inr s, [])"

definition cursorNative :: "string list \<Rightarrow> fetched \<Rightarrow> ('db, jsval list list) NativeStatement" where
  "cursorNative names absent =
     \<lparr>arrayGetAsync = cursorGet absent,
      objectGetAsync = cursorGet absent,
      arrayGetAllAsync = cursorGetAll,
      objectGetAllAsync = cursorGetAll,
      nativeGetColumnNamesAsync = (\<lambda>s. (Inr names, s)),
      arrayGetSync = cursorGet absent,
      objectGetSync = cursorGet absent,
      arrayGetAllSync = cursorGetAll,
      objectGetAllSync = cursorGetAll,
      nativeGetColumnNamesSync = (\<lambda>s. (Inr names, s))\<rparr>"

definition cursorStatement :: "string list \<Rightarrow> fetched \<Rightarrow> (unit, jsval list list) SQLiteStatement" where
  "cursorStatement names absent =
     \<lparr>nativeDatabase = (), nativeStatement = cursorNative names absent\<rparr>"

section \<open>Properties of the column loop\<close>

lemma js_set_other:
  "k' \<noteq> k \<Longrightarrow> map_of (fst (js_set obj k' v)) k = map_of (fst obj) k"
  by (cases obj) (simp add: update_conv')

lemma js_set_same:
  "k \<noteq> ''__proto__'' \<Longrightarrow> map_of (fst (js_set obj k v)) k = Some v"
  by (cases obj) (simp add: update_conv')

lemma js_set_keys:
  "fst ` set (fst obj) \<subseteq> fst ` set (fst (js_set obj k v))"
  "fst ` set (fst (js_set obj k v)) \<subseteq> insert k (fst ` set (fst obj))"
  "k \<noteq> ''__proto__'' \<Longrightarrow> k \<in> fst ` set (fst (js_set obj k v))"
  by (cases obj; auto simp add: dom_update)+

lemma js_set_distinct:
  "distinct (map fst (fst obj)) \<Longrightarrow> distinct (map fst (fst (js_set obj k v)))"
  by (cases obj) (simp add: distinct_update)

lemma update_fresh: "k \<notin> fst ` set al \<Longrightarrow> AList.update k v al = al @ [(k, v)]"
  by (induction al) auto

lemma js_set_fresh:
  "k \<noteq> ''__proto__'' \<Longrightarrow> k \<notin> fst ` set row \<Longrightarrow> js_set (row, p) k v = (row @ [(k, v)], p)"
  by (simp add: update_fresh)

lemma assignColumns_done: "length names \<le> i \<Longrightarrow> assignColumns names vals i obj = obj"
  by (simp add: assignColumns.simps)

lemma assignColumns_step:
  "i < length names \<Longrightarrow>
   assignColumns names vals i obj =
     assignColumns names vals (Suc i) (js_set obj (names ! i) (js_index vals i))"
  by (subst assignColumns.simps) simp

lemma assignColumns_untouched:
  "(\<And>j. i \<le> j \<Longrightarrow> j < length names \<Longrightarrow> names ! j \<noteq> k) \<Longrightarrow>
   map_of (fst (assignColumns names vals i obj)) k = map_of (fst obj) k"
proof (induction names vals i obj rule: assignColumns.induct)
  case (1 names vals i obj)
  show ?case
  proof (cases "i < length names")
    case True
    have "map_of (fst (assignColumns names vals (Suc i) (js_set obj (names ! i) (js_index vals i)))) k
          = map_of (fst (js_set obj (names ! i) (js_index vals i))) k"
      using True "1.IH" "1.prems" by simp
    also have "\<dots> = map_of (fst obj) k"
      using True "1.prems" [of i] by (simp add: js_set_other)
    finally show ?thesis using True by (simp add: assignColumns_step)
  next
    case False
    then show ?thesis by (simp add: assignColumns_done)
  qed
qed

lemma assignColumns_last_wins:
  "i \<le> j \<Longrightarrow> j < length names \<Longrightarrow> names ! j \<noteq> ''__proto__'' \<Longrightarrow>
   (\<And>j'. j < j' \<Longrightarrow> j' < length names \<Longrightarrow> names ! j' \<noteq> names ! j) \<Longrightarrow>
   map_of (fst (assignColumns names vals i obj)) (names ! j) = Some (js_index vals j)"
proof (induction names vals i obj rule: assignColumns.induct)
  case (1 names vals i obj)
  have lt: "i < length names" using "1.prems" by simp
  show ?case
  proof (cases "i = j")
    case True
    have "map_of (fst (assignColumns names vals (Suc i) (js_set obj (names ! i) (js_index vals i)))) (names ! j)
          = map_of (fst (js_set obj (names ! i) (js_index vals i))) (names ! j)"
      using "1.prems"(4) True by (intro assignColumns_untouched) auto
    then show ?thesis using True lt "1.prems"(3) by (simp add: assignColumns_step js_set_same)
  next
    case False
    then have "Suc i \<le> j" using "1.prems" by simp
    then show ?thesis using "1.IH" "1.prems" lt by (simp add: assignColumns_step)
  qed
qed

lemma assignColumns_keys_upper:
  "fst ` set (fst (assignColumns names vals i obj)) \<subseteq> fst ` set (fst obj) \<union> set (drop i names)"
proof (induction names vals i obj rule: assignColumns.induct)
  case (1 names vals i obj)
  show ?case
  proof (cases "i < length names")
    case True
    then have d: "set (drop i names) = insert (names ! i) (set (drop (Suc i) names))"
      by (simp add: Cons_nth_drop_Suc [symmetric])
    have eq: "assignColumns names vals i obj =
        assignColumns names vals (Suc i) (js_set obj (names ! i) (js_index vals i))"
      using True by (rule assignColumns_step)
    show ?thesis
      unfolding eq d
      using "1.IH" [OF True] js_set_keys(2) [of obj "names ! i" "js_index vals i"]
      by blast
  next
    case False
    then show ?thesis by (simp add: assignColumns_done)
  qed
qed

lemma assignColumns_keys_lower:
  "fst ` set (fst obj) \<union> (set (drop i names) - {''__proto__''})
     \<subseteq> fst ` set (fst (assignColumns names vals i obj))"
proof (induction names vals i obj rule: assignColumns.induct)
  case (1 names vals i obj)
  show ?case
  proof (cases "i < length names")
    case True
    then have d: "set (drop i names) = insert (names ! i) (set (drop (Suc i) names))"
      by (simp add: Cons_nth_drop_Suc [symmetric])
    have eq: "assignColumns names vals i obj =
        assignColumns names vals (Suc i) (js_set obj (names ! i) (js_index vals i))"
      using True by (rule assignColumns_step)
    show ?thesis
      unfolding eq d
      using "1.IH" [OF True] js_set_keys(1) [of obj "names ! i" "js_index vals i"]
        js_set_keys(3) [of "names ! i" obj "js_index vals i"]
      by blast
  next
    case False
    then show ?thesis by (simp add: assignColumns_done)
  qed
qed

lemma assignColumns_distinct:
  "distinct (map fst (fst obj)) \<Longrightarrow> distinct (map fst (fst (assignColumns names vals i obj)))"
proof (induction names vals i obj rule: assignColumns.induct)
  case (1 names vals i obj)
  show ?case
  proof (cases "i < length names")
    case True
    then show ?thesis using 1 by (simp add: assignColumns_step js_set_distinct)
  next
    case False
    then show ?thesis using 1 by (simp add: assignColumns_done)
  qed
qed

lemma composed_keys:
  "set names - {''__proto__''} \<subseteq> fst ` set (fst (assignColumns names vals 0 emptyObject))"
  "fst ` set (fst (assignColumns names vals 0 emptyObject)) \<subseteq> set names"
  using assignColumns_keys_lower [of emptyObject 0 names vals]
    assignColumns_keys_upper [of names vals 0 emptyObject]
  by (simp_all add: emptyObject_def)

lemma composed_length:
  "length (fst (assignColumns names vals 0 emptyObject)) \<le> card (set names)"
proof -
  let ?row = "fst (assignColumns names vals 0 emptyObject)"
  have "length ?row = length (map fst ?row)" by simp
  also have "\<dots> = card (set (map fst ?row))"
    by (rule distinct_card [symmetric]) (simp add: assignColumns_distinct emptyObject_def)
  also have "\<dots> \<le> card (set names)"
    using composed_keys(2) [of names vals] by (intro card_mono) simp_all
  finally show ?thesis .
qed

lemma assignColumns_fresh:
  "distinct (map fst row @ drop i names) \<Longrightarrow> ''__proto__'' \<notin> set (drop i names) \<Longrightarrow>
   assignColumns names vals i (row, p) =
     (row @ map (\<lambda>j. (names ! j, js_index vals j)) [i..<length names], p)"
proof (induction names vals i "(row, p)" arbitrary: row rule: assignColumns.induct)
  case (1 names vals i)
  show ?case
  proof (cases "i < length names")
    case True
    then have d: "drop i names = names ! i # drop (Suc i) names"
      by (simp add: Cons_nth_drop_Suc)
    with "1.prems" have fresh: "names ! i \<notin> fst ` set row" and np: "names ! i \<noteq> ''__proto__''"
      by auto
    have step: "js_set (row, p) (names ! i) (js_index vals i) =
        (row @ [(names ! i, js_index vals i)], p)"
      by (rule js_set_fresh [OF np fresh])
    have "assignColumns names vals (Suc i) (row @ [(names ! i, js_index vals i)], p) =
        ((row @ [(names ! i, js_index vals i)]) @
           map (\<lambda>j. (names ! j, js_index vals j)) [Suc i..<length names], p)"
      using "1.prems" d True step by (intro "1.hyps") auto
    then show ?thesis using True step
      by (simp add: assignColumns_step upt_conv_Cons)
  next
    case False
    then show ?thesis by (simp add: assignColumns_done)
  qed
qed

lemma pushRows_map:
  "pushRows names rows acc = acc @ map (\<lambda>vals. fst (assignColumns names vals 0 emptyObject)) rows"
  by (induction rows arbitrary: acc) auto

lemma js_index_nth: "i < length xs \<Longrightarrow> js_index xs i = xs ! i"
  by (simp add: js_index_def)

lemma js_index_take: "i < n \<Longrightarrow> js_index (take n xs) i = js_index xs i"
  by (simp add: js_index_def)

lemma assignColumns_take:
  "assignColumns names (take (length names) vals) i obj = assignColumns names vals i obj"
proof (induction names vals i obj rule: assignColumns.induct)
  case (1 names vals i obj)
  show ?case
  proof (cases "i < length names")
    case True
    then show ?thesis
      using "1.IH" by (simp add: assignColumns_step js_index_take)
  next
    case False
    then show ?thesis by (simp add: assignColumns_done)
  qed
qed

lemma assignColumns_zip:
  assumes "distinct names" and "''__proto__'' \<notin> set names"
  shows "fst (assignColumns names vals 0 emptyObject) =
           map (\<lambda>i. (names ! i, js_index vals i)) [0..<length names]"
  using assignColumns_fresh [of "[]" 0 names vals ObjectPrototype] assms
  by (simp add: emptyObject_def)

lemma indexed_zip:
  "length names = length vals \<Longrightarrow>
   map (\<lambda>i. (names ! i, js_index vals i)) [0..<length names] = zip names vals"
  by (rule nth_equalityI) (simp_all add: js_index_def)

lemma composeRows_unfold:
  "composeRows names rows =
     (if rows = [] then Inr []
      else if length names \<noteq> length (hd rows)
      then Inl (CountMismatch (length names) (length (hd rows)))
      else Inr (map (\<lambda>vals. fst (assignColumns names vals 0 emptyObject)) rows))"
  by (cases rows) (simp_all add: composeRows_def pushRows_map)

lemmas compose_evals = composeRow_def composeRows_def assignColumns.simps emptyObject_def js_index_def

section \<open>Properties of the row composer\<close>

text \<open>
  Claim C4 says that \<^verbatim>\<open>composeRow\<close> fails exactly when the two lengths differ and that
  on success the i-th name is keyed to the i-th value. The second half fails when a column
  name is repeated, since the later assignment overwrites the earlier one, and for a column
  named \<^verbatim>\<open>__proto__\<close>, whose assignment runs the setter the row inherits and creates
  no key.
\<close>

theorem composeRow_keying_counterexample:
  "composeRow [''a'', ''a''] [JNum 1, JNum 2] = Inr [(''a'', JNum 2)] \<and>
   map_of [(''a'', JNum 2)] ([''a'', ''a''] ! 0) \<noteq> Some ([JNum 1, JNum 2] ! 0) \<and>
   composeRow [''__proto__''] [JNum 1] = Inr [] \<and>
   map_of [] ([''__proto__''] ! 0) \<noteq> Some ([JNum 1] ! 0)"
  by (simp add: compose_evals)

text \<open>
  Claim C4, as the code has it: \<^verbatim>\<open>composeRow\<close> fails with the count-mismatch error if
  and only if the lengths differ; on success every name other than \<^verbatim>\<open>__proto__\<close> is
  keyed to the value at the index of its last occurrence, so the i-th name is keyed to the
  i-th value whenever it is not \<^verbatim>\<open>__proto__\<close> and does not occur again at a later
  index; and with distinct names, none of them \<^verbatim>\<open>__proto__\<close>, the row pairs the names
  with the values position by position.
\<close>

theorem composeRow_contract:
  "((\<exists>e. composeRow names vals = Inl e) \<longleftrightarrow> length names \<noteq> length vals) \<and>
   (length names \<noteq> length vals \<longrightarrow>
      composeRow names vals = Inl (CountMismatch (length names) (length vals))) \<and>
   (length names = length vals \<longrightarrow>
      (\<exists>row. composeRow names vals = Inr row \<and>
         (\<forall>i<length names.
            names ! i \<noteq> ''__proto__'' \<and>
            (\<forall>j. i < j \<and> j < length names \<longrightarrow> names ! j \<noteq> names ! i) \<longrightarrow>
            map_of row (names ! i) = Some (vals ! i)) \<and>
         (distinct names \<and> ''__proto__'' \<notin> set names \<longrightarrow> row = zip names vals)))"
proof (intro conjI impI)
  show "(\<exists>e. composeRow names vals = Inl e) \<longleftrightarrow> length names \<noteq> length vals"
    by (simp add: composeRow_def)
  show "composeRow names vals = Inl (CountMismatch (length names) (length vals))"
    if "length names \<noteq> length vals"
    using that by (simp add: composeRow_def)
  show "\<exists>row. composeRow names vals = Inr row \<and>
         (\<forall>i<length names.
            names ! i \<noteq> ''__proto__'' \<and>
            (\<forall>j. i < j \<and> j < length names \<longrightarrow> names ! j \<noteq> names ! i) \<longrightarrow>
            map_of row (names ! i) = Some (vals ! i)) \<and>
         (distinct names \<and> ''__proto__'' \<notin> set names \<longrightarrow> row = zip names vals)"
    if eq: "length names = length vals"
  proof (intro exI conjI allI impI)
    let ?row = "fst (assignColumns names vals 0 emptyObject)"
    show "composeRow names vals = Inr ?row"
      using eq by (simp add: composeRow_def)
    show "map_of ?row (names ! i) = Some (vals ! i)"
      if "i < length names"
        and "names ! i \<noteq> ''__proto__'' \<and>
             (\<forall>j. i < j \<and> j < length names \<longrightarrow> names ! j \<noteq> names ! i)" for i
      using that eq assignColumns_last_wins [of 0 i names vals emptyObject]
      by (simp add: js_index_nth)
    show "?row = zip names vals" if "distinct names \<and> ''__proto__'' \<notin> set names"
    proof -
      from that have "?row = map (\<lambda>i. (names ! i, js_index vals i)) [0..<length names]"
        by (intro assignColumns_zip) simp_all
      with indexed_zip [OF eq] show ?thesis by simp
    qed
  qed
qed

theorem composeRow_contract_witness:
  "composeRow [''a'', ''b''] [JNum 1, JNum 2] = Inr [(''a'', JNum 1), (''b'', JNum 2)] \<and>
   composeRow [''a'', ''b''] [JNum 1] = Inl (CountMismatch 2 1)"
  using composeRow_contract [of "[''a'', ''b'']" "[JNum 1, JNum 2]"]
        composeRow_contract [of "[''a'', ''b'']" "[JNum 1]"]
  by auto

text \<open>
  Claim C5: \<^verbatim>\<open>composeRows\<close> answers the empty sequence for the empty list, without
  any length check; otherwise it fails exactly when the first row's length differs from the
  number of column names, whatever the other rows are; and when the first row passes, it
  composes every row of the list with the same column names, in order, one row per input
  row, which for a row of the right length is what \<^verbatim>\<open>composeRow\<close> answers.
\<close>

theorem composeRows_contract:
  "composeRows names [] = Inr [] \<and>
   ((\<exists>e. composeRows names rows = Inl e) \<longleftrightarrow> rows \<noteq> [] \<and> length names \<noteq> length (hd rows)) \<and>
   (rows \<noteq> [] \<and> length names \<noteq> length (hd rows) \<longrightarrow>
      composeRows names rows = Inl (CountMismatch (length names) (length (hd rows)))) \<and>
   (rows \<noteq> [] \<and> length names = length (hd rows) \<longrightarrow>
      composeRows names rows =
        Inr (map (\<lambda>vals. fst (assignColumns names vals 0 emptyObject)) rows) \<and>
      (\<forall>k<length rows. length (rows ! k) = length names \<longrightarrow>
         composeRow names (rows ! k) =
           Inr (map (\<lambda>vals. fst (assignColumns names vals 0 emptyObject)) rows ! k)))"
proof (intro conjI impI allI)
  show "composeRows names [] = Inr []"
    by (simp add: composeRows_def)
  show "(\<exists>e. composeRows names rows = Inl e) \<longleftrightarrow> rows \<noteq> [] \<and> length names \<noteq> length (hd rows)"
    by (simp add: composeRows_unfold)
  show "composeRows names rows = Inl (CountMismatch (length names) (length (hd rows)))"
    if "rows \<noteq> [] \<and> length names \<noteq> length (hd rows)"
    using that by (simp add: composeRows_unfold)
  show "composeRows names rows =
          Inr (map (\<lambda>vals. fst (assignColumns names vals 0 emptyObject)) rows)"
    if "rows \<noteq> [] \<and> length names = length (hd rows)"
    using that by (simp add: composeRows_unfold)
  show "composeRow names (rows ! k) =
          Inr (map (\<lambda>vals. fst (assignColumns names vals 0 emptyObject)) rows ! k)"
    if "k < length rows" and "length (rows ! k) = length names" for k
    using that by (simp add: composeRow_def)
qed

theorem composeRows_contract_witness:
  "composeRows [''a''] [] = Inr [] \<and>
   composeRows [''a'', ''b''] [[JNum 1, JNum 2], [JNum 3, JNum 4]] =
     Inr [[(''a'', JNum 1), (''b'', JNum 2)], [(''a'', JNum 3), (''b'', JNum 4)]]"
  using composeRows_contract [of "[''a'']" "[]"]
    composeRows_contract [of "[''a'', ''b'']" "[[JNum 1, JNum 2], [JNum 3, JNum 4]]"]
  by (simp add: assignColumns.simps emptyObject_def js_index_def)

text \<open>
  Claim C3 says that any row whose value count disagrees with the column-name count raises
  the shape-mismatch error, also a row after the first in \<^verbatim>\<open>composeRows\<close>. The code
  checks the first row only: a later row that is too short is padded with
  \<^verbatim>\<open>undefined\<close>, and one that is too long is cut.
\<close>

theorem composeRows_later_row_counterexample:
  "composeRows [''a'', ''b''] [[JNum 1, JNum 2], [JNum 3]] =
     Inr [[(''a'', JNum 1), (''b'', JNum 2)], [(''a'', JNum 3), (''b'', JUndefined)]] \<and>
   composeRows [''a''] [[JNum 1], [JNum 2, JNum 3]] = Inr [[(''a'', JNum 1)], [(''a'', JNum 2)]]"
  by (simp add: compose_evals)

text \<open>
  Claim C3, as the code has it: \<^verbatim>\<open>composeRow\<close> raises the error for every row whose
  count disagrees; \<^verbatim>\<open>composeRows\<close> raises it if and only if the list is not empty and
  its first row's count disagrees. Otherwise the rows after the first are not checked:
  \<^verbatim>\<open>composeRows\<close> answers one row per input row, in which every column name other
  than \<^verbatim>\<open>__proto__\<close> is keyed to the value that the input row has at the index of the
  name's last occurrence, or to \<^verbatim>\<open>undefined\<close> when the input row ends before that
  index; and the values that an input row has past the last column change nothing in the
  result.
\<close>

theorem shape_mismatch_detection:
  "(length vals \<noteq> length names \<longrightarrow>
      composeRow names vals = Inl (CountMismatch (length names) (length vals))) \<and>
   ((\<exists>e. composeRows names rows = Inl e) \<longleftrightarrow> rows \<noteq> [] \<and> length (hd rows) \<noteq> length names) \<and>
   (rows \<noteq> [] \<and> length (hd rows) \<noteq> length names \<longrightarrow>
      composeRows names rows = Inl (CountMismatch (length names) (length (hd rows)))) \<and>
   (rows \<noteq> [] \<and> length (hd rows) = length names \<longrightarrow>
      (\<exists>out. composeRows names rows = Inr out \<and> length out = length rows \<and>
         (\<forall>k<length rows. \<forall>i<length names.
            names ! i \<noteq> ''__proto__'' \<and>
            (\<forall>j. i < j \<and> j < length names \<longrightarrow> names ! j \<noteq> names ! i) \<longrightarrow>
            map_of (out ! k) (names ! i) =
              Some (if i < length (rows ! k) then rows ! k ! i else JUndefined))) \<and>
      composeRows names (map (take (length names)) rows) = composeRows names rows)"
proof (intro conjI impI)
  show "composeRow names vals = Inl (CountMismatch (length names) (length vals))"
    if "length vals \<noteq> length names"
    using that by (auto simp add: composeRow_def)
  show "(\<exists>e. composeRows names rows = Inl e) \<longleftrightarrow> rows \<noteq> [] \<and> length (hd rows) \<noteq> length names"
    by (auto simp add: composeRows_unfold)
  show "composeRows names rows = Inl (CountMismatch (length names) (length (hd rows)))"
    if "rows \<noteq> [] \<and> length (hd rows) \<noteq> length names"
    using that by (auto simp add: composeRows_unfold)
next
  assume ok: "rows \<noteq> [] \<and> length (hd rows) = length names"
  let ?out = "map (\<lambda>vals. fst (assignColumns names vals 0 emptyObject)) rows"
  have out: "composeRows names rows = Inr ?out"
    using ok by (simp add: composeRows_unfold)
  have val: "map_of (?out ! k) (names ! i) =
      Some (if i < length (rows ! k) then rows ! k ! i else JUndefined)"
    if "k < length rows" "i < length names"
      "names ! i \<noteq> ''__proto__'' \<and> (\<forall>j. i < j \<and> j < length names \<longrightarrow> names ! j \<noteq> names ! i)"
    for k i
    using that assignColumns_last_wins [of 0 i names "rows ! k" emptyObject]
    by (simp add: js_index_def)
  show "\<exists>out. composeRows names rows = Inr out \<and> length out = length rows \<and>
         (\<forall>k<length rows. \<forall>i<length names.
            names ! i \<noteq> ''__proto__'' \<and>
            (\<forall>j. i < j \<and> j < length names \<longrightarrow> names ! j \<noteq> names ! i) \<longrightarrow>
            map_of (out ! k) (names ! i) =
              Some (if i < length (rows ! k) then rows ! k ! i else JUndefined))"
    using out val by (intro exI [of _ ?out]) simp
  have "hd (map (take (length names)) rows) = take (length names) (hd rows)"
    using ok by (simp add: hd_map)
  then show "composeRows names (map (take (length names)) rows) = composeRows names rows"
    using ok by (simp add: composeRows_unfold assignColumns_take o_def)
qed

theorem shape_mismatch_detection_witness:
  "composeRow [''a'', ''b''] [JNum 1] = Inl (CountMismatch 2 1) \<and>
   composeRows [''a'', ''b''] [[JNum 1], [JNum 2, JNum 3]] = Inl (CountMismatch 2 1) \<and>
   composeRows [''a'', ''b''] [[JNum 1, JNum 2], [JNum 3]] =
     Inr [[(''a'', JNum 1), (''b'', JNum 2)], [(''a'', JNum 3), (''b'', JUndefined)]] \<and>
   composeRows [''a''] [[JNum 1], [JNum 2, JNum 3]] = composeRows [''a''] [[JNum 1], [JNum 2]]"
  using shape_mismatch_detection [of "[JNum 1]" "[''a'', ''b'']" "[[JNum 1], [JNum 2, JNum 3]]"]
    shape_mismatch_detection [of "[JNum 1]" "[''a'', ''b'']" "[[JNum 1, JNum 2], [JNum 3]]"]
    shape_mismatch_detection [of "[]" "[''a'']" "[[JNum 1], [JNum 2, JNum 3]]"]
  by (simp add: compose_evals)

text \<open>
  Claim C10 says that with a duplicate among the column names every duplicated name is
  keyed to the value at its last occurrence. A duplicated \<^verbatim>\<open>__proto__\<close> is not: both
  assignments run the inherited setter, and the row has no key at all.
\<close>

theorem duplicate_proto_counterexample:
  "composeRow [''__proto__'', ''__proto__''] [JNum 1, JNum 2] = Inr [] \<and>
   map_of [] ''__proto__'' \<noteq> Some (JNum 2)"
  by (simp add: compose_evals)

text \<open>
  Claim C10, as the code has it: when the column names contain a duplicate and the lengths
  match, \<^verbatim>\<open>composeRow\<close> and \<^verbatim>\<open>composeRows\<close> raise no error and key every name
  other than \<^verbatim>\<open>__proto__\<close> to the value at the index of its last occurrence (to
  \<^verbatim>\<open>undefined\<close> where a later row of \<^verbatim>\<open>composeRows\<close> ends before that index), so
  that the earlier values of a duplicated name are lost; the keys of the row are column names,
  every name other than \<^verbatim>\<open>__proto__\<close> is among them, and there are fewer of them than
  there are column names.
\<close>

theorem duplicate_names_last_wins:
  assumes dup: "\<not> distinct names"
  shows "(length names = length vals \<longrightarrow>
           (\<exists>row. composeRow names vals = Inr row \<and> length row < length names \<and>
              set names - {''__proto__''} \<subseteq> fst ` set row \<and> fst ` set row \<subseteq> set names \<and>
              (\<forall>i<length names.
                 names ! i \<noteq> ''__proto__'' \<and>
                 (\<forall>j. i < j \<and> j < length names \<longrightarrow> names ! j \<noteq> names ! i) \<longrightarrow>
                 map_of row (names ! i) = Some (vals ! i)))) \<and>
         (rows \<noteq> [] \<and> length names = length (hd rows) \<longrightarrow>
           (\<exists>out. composeRows names rows = Inr out \<and> length out = length rows \<and>
              (\<forall>k<length rows. length (out ! k) < length names \<and>
                 set names - {''__proto__''} \<subseteq> fst ` set (out ! k) \<and>
                 fst ` set (out ! k) \<subseteq> set names \<and>
                 (\<forall>i<length names.
                    names ! i \<noteq> ''__proto__'' \<and>
                    (\<forall>j. i < j \<and> j < length names \<longrightarrow> names ! j \<noteq> names ! i) \<longrightarrow>
                    map_of (out ! k) (names ! i) = Some (js_index (rows ! k) i)))))"
proof -
  have card: "card (set names) < length names"
    using dup by (metis card_distinct card_length le_neq_implies_less)
  have len: "length (fst (assignColumns names v 0 emptyObject)) < length names" for v
    using card composed_length [of names v] by simp
  note keys = composed_keys
  have last: "map_of (fst (assignColumns names v 0 emptyObject)) (names ! i) = Some (js_index v i)"
    if "i < length names"
      "names ! i \<noteq> ''__proto__'' \<and> (\<forall>j. i < j \<and> j < length names \<longrightarrow> names ! j \<noteq> names ! i)"
    for v i
    using that assignColumns_last_wins [of 0 i names v emptyObject] by simp
  show ?thesis
  proof (intro conjI impI)
    assume eq: "length names = length vals"
    show "\<exists>row. composeRow names vals = Inr row \<and> length row < length names \<and>
              set names - {''__proto__''} \<subseteq> fst ` set row \<and> fst ` set row \<subseteq> set names \<and>
              (\<forall>i<length names.
                 names ! i \<noteq> ''__proto__'' \<and>
                 (\<forall>j. i < j \<and> j < length names \<longrightarrow> names ! j \<noteq> names ! i) \<longrightarrow>
                 map_of row (names ! i) = Some (vals ! i))"
      using eq len keys last by (simp add: composeRow_def js_index_nth)
  next
    assume "rows \<noteq> [] \<and> length names = length (hd rows)"
    then show "\<exists>out. composeRows names rows = Inr out \<and> length out = length rows \<and>
              (\<forall>k<length rows. length (out ! k) < length names \<and>
                 set names - {''__proto__''} \<subseteq> fst ` set (out ! k) \<and>
                 fst ` set (out ! k) \<subseteq> set names \<and>
                 (\<forall>i<length names.
                    names ! i \<noteq> ''__proto__'' \<and>
                    (\<forall>j. i < j \<and> j < length names \<longrightarrow> names ! j \<noteq> names ! i) \<longrightarrow>
                    map_of (out ! k) (names ! i) = Some (js_index (rows ! k) i)))"
      using len keys last by (simp add: composeRows_unfold)
  qed
qed

theorem duplicate_names_last_wins_witness:
  "composeRow [''id'', ''n'', ''id''] [JNum 1, JStr ''x'', JNum 2] = Inr [(''id'', JNum 2), (''n'', JStr ''x'')]
   \<and> composeRows [''id'', ''id''] [[JNum 1, JNum 2], [JNum 3, JNum 4]] = Inr [[(''id'', JNum 2)], [(''id'', JNum 4)]]"
  using duplicate_names_last_wins [of "[''id'', ''n'', ''id'']" "[JNum 1, JStr ''x'', JNum 2]" "[]"]
    duplicate_names_last_wins [of "[''id'', ''id'']" "[JNum 1, JNum 2]"
      "[[JNum 1, JNum 2], [JNum 3, JNum 4]]"]
  by (simp add: compose_evals)

section \<open>Properties of the parameter normalizer\<close>

lemma normalizeParams_many:
  "1 < length params \<Longrightarrow> normalizeParams params = (JArr params, False)"
  by (simp add: normalizeParams_def)

lemma normalizeParams_none: "normalizeParams [] = (JArr [], False)"
  by (simp add: normalizeParams_def js_index_def)

lemma normalizeParams_one:
  "normalizeParams [v] =
     (case v of
        JUndefined \<Rightarrow> (JArr [], False)
      | JNull \<Rightarrow> (JArr [], False)
      | JArr xs \<Rightarrow> (JArr xs, False)
      | JObj m \<Rightarrow> (JObj m, True)
      | _ \<Rightarrow> (JArr [v], False))"
  by (cases v) (simp_all add: normalizeParams_def js_index_def)

lemma normalizeParams_shape:
  "(\<exists>xs. normalizeParams params = (JArr xs, False)) \<or> (\<exists>m. normalizeParams params = (JObj m, True))"
proof (cases params)
  case Nil
  then show ?thesis by (simp add: normalizeParams_none)
next
  case (Cons v rest)
  show ?thesis
  proof (cases rest)
    case Nil
    with Cons show ?thesis by (cases v) (simp_all add: normalizeParams_one)
  next
    case (Cons u rest')
    with \<open>params = v # rest\<close> show ?thesis by (simp add: normalizeParams_many)
  qed
qed

text \<open>
  Claim C2 says that a single scalar argument \<open>v\<close> (text, number, null or boolean) is
  wrapped as \<open>[v]\<close> with the flag false. For \<^verbatim>\<open>null\<close> the code does otherwise: the
  guard \<^verbatim>\<open>bindParams == null\<close> replaces it by the empty array before the wrapping step
  is reached.
\<close>

theorem normalizeParams_null_counterexample:
  "normalizeParams [JNull] = (JArr [], False) \<and> normalizeParams [JNull] \<noteq> (JArr [JNull], False)"
  by (simp add: normalizeParams_def js_index_def)

text \<open>
  Claim C2, as the code has it: a single argument that is a string, a number or a boolean is
  wrapped into the one-element array with the flag false, and a single \<^verbatim>\<open>null\<close> yields
  the empty array with the flag false.
\<close>

theorem normalizeParams_single_scalar:
  assumes "js_typeof v \<in> {''string'', ''number'', ''boolean''}"
  shows "normalizeParams [v] = (JArr [v], False) \<and> normalizeParams [JNull] = (JArr [], False)"
  using assms by (cases v) (simp_all add: normalizeParams_def js_index_def)

theorem normalizeParams_single_scalar_witness:
  "normalizeParams [JNum 5] = (JArr [JNum 5], False) \<and>
   normalizeParams [JStr ''x''] = (JArr [JStr ''x''], False) \<and>
   normalizeParams [JBool True] = (JArr [JBool True], False) \<and>
   normalizeParams [JNull] = (JArr [], False)"
  using normalizeParams_single_scalar [of "JNum 5"] normalizeParams_single_scalar [of "JStr ''x''"]
    normalizeParams_single_scalar [of "JBool True"]
  by simp

text \<open>
  Claim C6: with more than one argument the whole argument list is the ordered sequence and
  the flag is false; with no argument the result is the empty sequence and the flag is
  false; and in every case the flag is true exactly when the resulting value is an object
  that is not an array, and false exactly when it is an array.
\<close>

theorem normalizeParams_rules:
  "(1 < length params \<longrightarrow> normalizeParams params = (JArr params, False)) \<and>
   normalizeParams [] = (JArr [], False) \<and>
   (snd (normalizeParams params) \<longleftrightarrow> (\<exists>m. fst (normalizeParams params) = JObj m)) \<and>
   (\<not> snd (normalizeParams params) \<longleftrightarrow> (\<exists>xs. fst (normalizeParams params) = JArr xs))"
  using normalizeParams_shape [of params]
  by (auto simp add: normalizeParams_many normalizeParams_none)

theorem normalizeParams_rules_witness:
  "normalizeParams [JNum 1, JStr ''x'', JBool True] = (JArr [JNum 1, JStr ''x'', JBool True], False)
   \<and> normalizeParams [] = (JArr [], False)"
  using normalizeParams_rules [of "[JNum 1, JStr ''x'', JBool True]"] by simp

section \<open>Properties of the statement facade\<close>

lemma invoke_result:
  "invoke c f w = (r, w') \<longleftrightarrow>
     r = fst (f (native w)) \<and> w' = \<lparr>native = snd (f (native w)), calls = calls w @ [c]\<rparr>"
  by (auto simp add: invoke_def split: prod.splits)

lemma invoke_fetches:
  "columnNameFetches (snd (invoke c f w)) =
     columnNameFetches w + (if c = CallGetColumnNames then 1 else 0)"
  by (simp add: invoke_def columnNameFetches_def split: prod.splits)

lemma invoke_fetchesD:
  "invoke c f w = (r, w') \<Longrightarrow>
   columnNameFetches w' = columnNameFetches w + (if c = CallGetColumnNames then 1 else 0)"
  using invoke_fetches [of c f w] by simp

lemma getColumnNamesSync_fetches:
  "columnNameFetches (snd (getColumnNamesSync stmt w)) = Suc (columnNameFetches w)"
  by (simp add: getColumnNamesSync_def invoke_fetches)

lemma getColumnNamesAsync_fetches:
  "columnNameFetches (snd (getColumnNamesAsync stmt w)) = Suc (columnNameFetches w)"
  by (simp add: getColumnNamesAsync_def invoke_fetches)

lemma getSync_fetches:
  "columnNameFetches (snd (getSync stmt params w)) = Suc (columnNameFetches w)"
  using getColumnNamesSync_fetches [of stmt w]
  by (auto simp add: getSync_def split: prod.splits sum.splits fetched.splits if_splits
      dest!: invoke_fetchesD)

lemma getAsync_fetches:
  "columnNameFetches (snd (getAsync stmt params w)) = Suc (columnNameFetches w)"
  using getColumnNamesAsync_fetches [of stmt w]
  by (auto simp add: getAsync_def split: prod.splits sum.splits fetched.splits if_splits
      dest!: invoke_fetchesD)

lemma allSync_fetches:
  "columnNameFetches (snd (allSync stmt params w)) = Suc (columnNameFetches w)"
  using getColumnNamesSync_fetches [of stmt w]
  by (auto simp add: allSync_def split: prod.splits sum.splits if_splits
      dest!: invoke_fetchesD)

lemma allAsync_fetches:
  "columnNameFetches (snd (allAsync stmt params w)) = Suc (columnNameFetches w)"
  using getColumnNamesAsync_fetches [of stmt w]
  by (auto simp add: allAsync_def split: prod.splits sum.splits if_splits
      dest!: invoke_fetchesD)

lemma eachLoop_fetches:
  assumes "eachLoop func db bp cols yielded w = Some y"
    and "\<And>db p w. columnNameFetches (snd (func db p w)) = columnNameFetches w"
  shows "columnNameFetches (snd y) = columnNameFetches w"
  using assms
proof (induction rule: eachLoop.raw_induct [rotated 1, consumes 1])
  case (1 loop func db bp cols yielded w y)
  have keep: "columnNameFetches w' = columnNameFetches w" if "func db bp w = (r, w')" for r w'
    using "1.prems" [of db bp w] that by simp
  note facts = 1
  show ?case
    using facts keep
    by (auto split: prod.splits sum.splits fetched.splits)
qed



lemma eachSync_fetches:
  assumes "eachSync stmt params w = Some y"
  shows "columnNameFetches (snd y) = Suc (columnNameFetches w)"
proof -
  obtain bp flag where np: "normalizeParams params = (bp, flag)" by (cases "normalizeParams params")
  obtain r w1 where cn: "getColumnNamesSync stmt w = (r, w1)" by (cases "getColumnNamesSync stmt w")
  have w1: "columnNameFetches w1 = Suc (columnNameFetches w)"
    using getColumnNamesSync_fetches [of stmt w] cn by simp
  show ?thesis
  proof (cases r)
    case (Inl e)
    then show ?thesis using assms np cn w1 by (auto simp add: eachSync_def)
  next
    case (Inr cols)
    let ?func = "if flag
      then (\<lambda>db p. invoke (CallObjectGet p) (objectGetSync (nativeStatement stmt) db p))
      else (\<lambda>db p. invoke (CallArrayGet p) (arrayGetSync (nativeStatement stmt) db p))"
    have loop: "eachLoop ?func (nativeDatabase stmt) bp cols [] w1 = Some y"
      using assms np cn Inr by (simp add: eachSync_def)
    have "columnNameFetches (snd (?func db p w)) = columnNameFetches w" for db p w
      by (simp add: invoke_fetches)
    from eachLoop_fetches [OF loop this] w1 show ?thesis by simp
  qed
qed

lemma eachAsync_fetches:
  assumes "eachAsync stmt params w = Some y"
  shows "columnNameFetches (snd y) = Suc (columnNameFetches w)"
proof -
  obtain bp flag where np: "normalizeParams params = (bp, flag)" by (cases "normalizeParams params")
  obtain r w1 where cn: "getColumnNamesAsync stmt w = (r, w1)" by (cases "getColumnNamesAsync stmt w")
  have w1: "columnNameFetches w1 = Suc (columnNameFetches w)"
    using getColumnNamesAsync_fetches [of stmt w] cn by simp
  show ?thesis
  proof (cases r)
    case (Inl e)
    then show ?thesis using assms np cn w1 by (auto simp add: eachAsync_def)
  next
    case (Inr cols)
    let ?func = "if flag
      then (\<lambda>db p. invoke (CallObjectGet p) (objectGetAsync (nativeStatement stmt) db p))
      else (\<lambda>db p. invoke (CallArrayGet p) (arrayGetAsync (nativeStatement stmt) db p))"
    have loop: "eachLoop ?func (nativeDatabase stmt) bp cols [] w1 = Some y"
      using assms np cn Inr by (simp add: eachAsync_def)
    have "columnNameFetches (snd (?func db p w)) = columnNameFetches w" for db p w
      by (simp add: invoke_fetches)
    from eachLoop_fetches [OF loop this] w1 show ?thesis by simp
  qed
qed

lemma nativeSteps_invoke:
  "nativeSteps (invoke c g) n w =
     (fst (nativeSteps g n (native w)),
      \<lparr>native = snd (nativeSteps g n (native w)), calls = calls w @ replicate n c\<rparr>)"
proof (induction n arbitrary: w)
  case 0
  then show ?case by simp
next
  case (Suc n)
  obtain r s' where g: "g (native w) = (r, s')" by (cases "g (native w)")
  then have inv: "invoke c g w = (r, \<lparr>native = s', calls = calls w @ [c]\<rparr>)"
    by (simp add: invoke_def)
  show ?case
    using Suc [of "\<lparr>native = s', calls = calls w @ [c]\<rparr>"] g inv
    by (simp split: prod.splits)
qed

lemma eachLoop_drains:
  assumes "nativeSteps (func db bp) (Suc (length rows)) w =
             (map (\<lambda>r. Inr (Values r)) rows @ [Inr marker], w2)"
    and "isAbsent marker"
    and "\<forall>r\<in>set rows. length r = length cols"
  shows "eachLoop func db bp cols yielded w =
           Some ((yielded @ map (\<lambda>r. fst (assignColumns cols r 0 emptyObject)) rows, None), w2)"
  using assms
proof (induction rows arbitrary: yielded w)
  case Nil
  then have "func db bp w = (Inr marker, w2)"
    by (simp split: prod.splits)
  with \<open>isAbsent marker\<close> show ?case
    by (subst eachLoop.simps) (cases marker; simp)
next
  case (Cons r rows)
  obtain x w1 where step: "func db bp w = (x, w1)" by (cases "func db bp w")
  from Cons.prems(1) step have x: "x = Inr (Values r)"
    and rest: "nativeSteps (func db bp) (Suc (length rows)) w1 =
                 (map (\<lambda>r. Inr (Values r)) rows @ [Inr marker], w2)"
    by (auto split: prod.splits)
  have row: "composeRow cols r = Inr (fst (assignColumns cols r 0 emptyObject))"
    using Cons.prems(3) by (simp add: composeRow_def)
  have "eachLoop func db bp cols (yielded @ [fst (assignColumns cols r 0 emptyObject)]) w1 =
          Some (((yielded @ [fst (assignColumns cols r 0 emptyObject)]) @ map (\<lambda>r. fst (assignColumns cols r 0 emptyObject)) rows, None), w2)"
    using Cons.prems by (intro Cons.IH [OF rest]) simp_all
  then show ?case
    by (subst eachLoop.simps) (simp add: step x row)
qed

lemma getColumnNamesSync_ok:
  "nativeGetColumnNamesSync (nativeStatement stmt) (native w) = (r, s1) \<Longrightarrow>
   getColumnNamesSync stmt w = (r, \<lparr>native = s1, calls = calls w @ [CallGetColumnNames]\<rparr>)"
  by (simp add: getColumnNamesSync_def invoke_def)

lemma getColumnNamesAsync_ok:
  "nativeGetColumnNamesAsync (nativeStatement stmt) (native w) = (r, s1) \<Longrightarrow>
   getColumnNamesAsync stmt w = (r, \<lparr>native = s1, calls = calls w @ [CallGetColumnNames]\<rparr>)"
  by (simp add: getColumnNamesAsync_def invoke_def)

lemma eachSync_yields:
  assumes np: "normalizeParams params = (bp, flag)"
    and cn: "nativeGetColumnNamesSync (nativeStatement stmt) (native w) = (Inr cols, s1)"
    and steps: "nativeSteps
                  ((if flag then objectGetSync (nativeStatement stmt)
                    else arrayGetSync (nativeStatement stmt)) (nativeDatabase stmt) bp)
                  (Suc (length rows)) s1 =
                (map (\<lambda>r. Inr (Values r)) rows @ [Inr marker], s2)"
    and absent: "isAbsent marker"
    and shape: "\<forall>r\<in>set rows. length r = length cols"
  shows "eachSync stmt params w =
           Some ((map (\<lambda>r. fst (assignColumns cols r 0 emptyObject)) rows, None),
                 \<lparr>native = s2,
                  calls = calls w @ CallGetColumnNames #
                    replicate (Suc (length rows))
                      ((if flag then CallObjectGet else CallArrayGet) bp)\<rparr>)"
proof -
  let ?w1 = "\<lparr>native = s1, calls = calls w @ [CallGetColumnNames]\<rparr>"
  let ?func = "if flag
      then (\<lambda>db p. invoke (CallObjectGet p) (objectGetSync (nativeStatement stmt) db p))
      else (\<lambda>db p. invoke (CallArrayGet p) (arrayGetSync (nativeStatement stmt) db p))"
  let ?w2 = "\<lparr>native = s2,
              calls = calls w @ CallGetColumnNames #
                replicate (Suc (length rows)) ((if flag then CallObjectGet else CallArrayGet) bp)\<rparr>"
  have "nativeSteps (?func (nativeDatabase stmt) bp) (Suc (length rows)) ?w1 =
          (map (\<lambda>r. Inr (Values r)) rows @ [Inr marker], ?w2)"
    using steps by (cases flag) (simp_all only: if_True if_False nativeSteps_invoke, simp_all)
  then have "eachLoop ?func (nativeDatabase stmt) bp cols [] ?w1 =
          Some ((map (\<lambda>r. fst (assignColumns cols r 0 emptyObject)) rows, None), ?w2)"
    using eachLoop_drains [of ?func "nativeDatabase stmt" bp rows ?w1 marker ?w2 cols "[]"]
      absent shape
    by simp
  then show ?thesis
    using np getColumnNamesSync_ok [OF cn] by (simp add: eachSync_def)
qed

lemma eachAsync_yields:
  assumes np: "normalizeParams params = (bp, flag)"
    and cn: "nativeGetColumnNamesAsync (nativeStatement stmt) (native w) = (Inr cols, s1)"
    and steps: "nativeSteps
                  ((if flag then objectGetAsync (nativeStatement stmt)
                    else arrayGetAsync (nativeStatement stmt)) (nativeDatabase stmt) bp)
                  (Suc (length rows)) s1 =
                (map (\<lambda>r. Inr (Values r)) rows @ [Inr marker], s2)"
    and absent: "isAbsent marker"
    and shape: "\<forall>r\<in>set rows. length r = length cols"
  shows "eachAsync stmt params w =
           Some ((map (\<lambda>r. fst (assignColumns cols r 0 emptyObject)) rows, None),
                 \<lparr>native = s2,
                  calls = calls w @ CallGetColumnNames #
                    replicate (Suc (length rows))
                      ((if flag then CallObjectGet else CallArrayGet) bp)\<rparr>)"
proof -
  let ?w1 = "\<lparr>native = s1, calls = calls w @ [CallGetColumnNames]\<rparr>"
  let ?func = "if flag
      then (\<lambda>db p. invoke (CallObjectGet p) (objectGetAsync (nativeStatement stmt) db p))
      else (\<lambda>db p. invoke (CallArrayGet p) (arrayGetAsync (nativeStatement stmt) db p))"
  let ?w2 = "\<lparr>native = s2,
              calls = calls w @ CallGetColumnNames #
                replicate (Suc (length rows)) ((if flag then CallObjectGet else CallArrayGet) bp)\<rparr>"
  have "nativeSteps (?func (nativeDatabase stmt) bp) (Suc (length rows)) ?w1 =
          (map (\<lambda>r. Inr (Values r)) rows @ [Inr marker], ?w2)"
    using steps by (cases flag) (simp_all only: if_True if_False nativeSteps_invoke, simp_all)
  then have "eachLoop ?func (nativeDatabase stmt) bp cols [] ?w1 =
          Some ((map (\<lambda>r. fst (assignColumns cols r 0 emptyObject)) rows, None), ?w2)"
    using eachLoop_drains [of ?func "nativeDatabase stmt" bp rows ?w1 marker ?w2 cols "[]"]
      absent shape
    by simp
  then show ?thesis
    using np getColumnNamesAsync_ok [OF cn] by (simp add: eachAsync_def)
qed

lemma composeRow_matching:
  "\<forall>r\<in>set rows. length r = length cols \<Longrightarrow>
   map (composeRow cols) rows = map (\<lambda>r. Inr (fst (assignColumns cols r 0 emptyObject))) rows"
  by (simp add: composeRow_def)

lemma cursor_fields:
  "nativeStatement (cursorStatement names absent) = cursorNative names absent"
  "nativeDatabase (cursorStatement names absent) = ()"
  "nativeGetColumnNamesSync (cursorNative names absent) s = (Inr names, s)"
  "nativeGetColumnNamesAsync (cursorNative names absent) s = (Inr names, s)"
  "arrayGetSync (cursorNative names absent) = cursorGet absent"
  "objectGetSync (cursorNative names absent) = cursorGet absent"
  "arrayGetAsync (cursorNative names absent) = cursorGet absent"
  "objectGetAsync (cursorNative names absent) = cursorGet absent"
  "arrayGetAllSync (cursorNative names absent) = cursorGetAll"
  "objectGetAllSync (cursorNative names absent) = cursorGetAll"
  "arrayGetAllAsync (cursorNative names absent) = cursorGetAll"
  "objectGetAllAsync (cursorNative names absent) = cursorGetAll"
  by (simp_all add: cursorStatement_def cursorNative_def)

lemmas evals = normalizeParams_def js_index_def cursor_fields cursorGet_def cursorGetAll_def
  composeRow_def composeRows_def assignColumns.simps emptyObject_def

lemma getSync_result:
  assumes np: "normalizeParams params = (bp, flag)"
    and cn: "nativeGetColumnNamesSync (nativeStatement stmt) (native w) = (Inr cols, s1)"
    and get: "(if flag then objectGetSync (nativeStatement stmt)
               else arrayGetSync (nativeStatement stmt)) (nativeDatabase stmt) bp s1 = (Inr f, s2)"
  shows "fst (getSync stmt params w) =
           (case f of
              Values vs \<Rightarrow> (case composeRow cols vs of Inl e \<Rightarrow> Inl e | Inr row \<Rightarrow> Inr (JObj row))
            | AbsentNull \<Rightarrow> Inr JNull
            | AbsentUndefined \<Rightarrow> Inr JNull)"
  using np getColumnNamesSync_ok [OF cn] get
  by (cases flag) (simp_all add: getSync_def invoke_def split: fetched.splits sum.splits)

lemma getAsync_result:
  assumes np: "normalizeParams params = (bp, flag)"
    and cn: "nativeGetColumnNamesAsync (nativeStatement stmt) (native w) = (Inr cols, s1)"
    and get: "(if flag then objectGetAsync (nativeStatement stmt)
               else arrayGetAsync (nativeStatement stmt)) (nativeDatabase stmt) bp s1 = (Inr f, s2)"
  shows "fst (getAsync stmt params w) =
           (case f of
              Values vs \<Rightarrow> (case composeRow cols vs of Inl e \<Rightarrow> Inl e | Inr row \<Rightarrow> Inr (JObj row))
            | AbsentNull \<Rightarrow> Inr JNull
            | AbsentUndefined \<Rightarrow> Inr JNull)"
  using np getColumnNamesAsync_ok [OF cn] get
  by (cases flag) (simp_all add: getAsync_def invoke_def split: fetched.splits sum.splits)

lemma getSync_value:
  assumes np: "normalizeParams params = (bp, flag)"
    and res: "fst (getSync stmt params w) = Inr v"
  shows "v = JNull \<or>
         (\<exists>cols s1 vs s2 row.
            nativeGetColumnNamesSync (nativeStatement stmt) (native w) = (Inr cols, s1) \<and>
            (if flag then objectGetSync (nativeStatement stmt)
             else arrayGetSync (nativeStatement stmt)) (nativeDatabase stmt) bp s1 = (Inr (Values vs), s2) \<and>
            composeRow cols vs = Inr row \<and> v = JObj row)"
proof -
  obtain r s1 where cn: "nativeGetColumnNamesSync (nativeStatement stmt) (native w) = (r, s1)"
    by (cases "nativeGetColumnNamesSync (nativeStatement stmt) (native w)")
  note cn' = getColumnNamesSync_ok [OF cn]
  show ?thesis
  proof (cases r)
    case (Inl e)
    with res np cn' show ?thesis by (simp add: getSync_def)
  next
    case (Inr cols)
    obtain x s2 where get: "(if flag then objectGetSync (nativeStatement stmt)
        else arrayGetSync (nativeStatement stmt)) (nativeDatabase stmt) bp s1 = (x, s2)"
      by (cases "(if flag then objectGetSync (nativeStatement stmt)
        else arrayGetSync (nativeStatement stmt)) (nativeDatabase stmt) bp s1")
    show ?thesis
    proof (cases x)
      case (Inl e)
      with res np cn' get \<open>r = Inr cols\<close> show ?thesis
        by (cases flag) (simp_all add: getSync_def invoke_def)
    next
      case (Inr f)
      have "fst (getSync stmt params w) =
           (case f of
              Values vs \<Rightarrow> (case composeRow cols vs of Inl e \<Rightarrow> Inl e | Inr row \<Rightarrow> Inr (JObj row))
            | AbsentNull \<Rightarrow> Inr JNull
            | AbsentUndefined \<Rightarrow> Inr JNull)"
        using getSync_result [OF np] cn get Inr \<open>r = Inr cols\<close> by simp
      with res cn get Inr \<open>r = Inr cols\<close> show ?thesis
        by (cases f) (auto split: sum.splits)
    qed
  qed
qed

lemma getAsync_value:
  assumes np: "normalizeParams params = (bp, flag)"
    and res: "fst (getAsync stmt params w) = Inr v"
  shows "v = JNull \<or>
         (\<exists>cols s1 vs s2 row.
            nativeGetColumnNamesAsync (nativeStatement stmt) (native w) = (Inr cols, s1) \<and>
            (if flag then objectGetAsync (nativeStatement stmt)
             else arrayGetAsync (nativeStatement stmt)) (nativeDatabase stmt) bp s1 = (Inr (Values vs), s2) \<and>
            composeRow cols vs = Inr row \<and> v = JObj row)"
proof -
  obtain r s1 where cn: "nativeGetColumnNamesAsync (nativeStatement stmt) (native w) = (r, s1)"
    by (cases "nativeGetColumnNamesAsync (nativeStatement stmt) (native w)")
  note cn' = getColumnNamesAsync_ok [OF cn]
  show ?thesis
  proof (cases r)
    case (Inl e)
    with res np cn' show ?thesis by (simp add: getAsync_def)
  next
    case (Inr cols)
    obtain x s2 where get: "(if flag then objectGetAsync (nativeStatement stmt)
        else arrayGetAsync (nativeStatement stmt)) (nativeDatabase stmt) bp s1 = (x, s2)"
      by (cases "(if flag then objectGetAsync (nativeStatement stmt)
        else arrayGetAsync (nativeStatement stmt)) (nativeDatabase stmt) bp s1")
    show ?thesis
    proof (cases x)
      case (Inl e)
      with res np cn' get \<open>r = Inr cols\<close> show ?thesis
        by (cases flag) (simp_all add: getAsync_def invoke_def)
    next
      case (Inr f)
      have "fst (getAsync stmt params w) =
           (case f of
              Values vs \<Rightarrow> (case composeRow cols vs of Inl e \<Rightarrow> Inl e | Inr row \<Rightarrow> Inr (JObj row))
            | AbsentNull \<Rightarrow> Inr JNull
            | AbsentUndefined \<Rightarrow> Inr JNull)"
        using getAsync_result [OF np] cn get Inr \<open>r = Inr cols\<close> by simp
      with res cn get Inr \<open>r = Inr cols\<close> show ?thesis
        by (cases f) (auto split: sum.splits)
    qed
  qed
qed

lemma eachLoop_sound:
  assumes "eachLoop func db bp cols yielded w = Some y"
  shows "\<exists>rows. fst (fst y) = yielded @ map (\<lambda>r. fst (assignColumns cols r 0 emptyObject)) rows \<and>
           (\<forall>r\<in>set rows. length r = length cols) \<and>
           fst (nativeSteps (func db bp) (length rows) w) = map (\<lambda>r. Inr (Values r)) rows"
  using assms
proof (induction rule: eachLoop.raw_induct [rotated 1, consumes 1])
  case (1 loop func db bp cols yielded w y)
  obtain x w1 where step: "func db bp w = (x, w1)" by (cases "func db bp w")
  let ?P = "\<lambda>rows. fst (fst y) = yielded @ map (\<lambda>r. fst (assignColumns cols r 0 emptyObject)) rows \<and>
           (\<forall>r\<in>set rows. length r = length cols) \<and>
           fst (nativeSteps (func db bp) (length rows) w) = map (\<lambda>r. Inr (Values r)) rows"
  show ?case
  proof (cases x)
    case (Inl e)
    with 1(2) step have "?P []" by auto
    then show ?thesis ..
  next
    case (Inr f)
    show ?thesis
    proof (cases f)
      case (Values vs)
      show ?thesis
      proof (cases "length cols = length vs")
        case False
        with 1(2) step Inr Values have "?P []" by (auto simp add: composeRow_def)
        then show ?thesis ..
      next
        case True
        let ?row = "fst (assignColumns cols vs 0 emptyObject)"
        from 1(2) step Inr Values True
        have "loop func db bp cols (yielded @ [?row]) w1 = Some y"
          by (simp add: composeRow_def)
        from 1(1) [OF this] obtain rows where
          r: "fst (fst y) = (yielded @ [?row]) @ map (\<lambda>r. fst (assignColumns cols r 0 emptyObject)) rows"
            "\<forall>r\<in>set rows. length r = length cols"
            "fst (nativeSteps (func db bp) (length rows) w1) = map (\<lambda>r. Inr (Values r)) rows"
          by blast
        have "?P (vs # rows)"
          using r step Inr Values True by (auto split: prod.splits)
        then show ?thesis ..
      qed
    next
      case AbsentNull
      with 1(2) step Inr have "?P []" by auto
      then show ?thesis ..
    next
      case AbsentUndefined
      with 1(2) step Inr have "?P []" by auto
      then show ?thesis ..
    qed
  qed
qed

lemma composeRow_composed:
  "\<forall>r\<in>set rows. length r = length cols \<Longrightarrow>
   map (composeRow cols) rows = map Inr (map (\<lambda>r. fst (assignColumns cols r 0 emptyObject)) rows)"
  by (simp add: composeRow_def)

lemma eachSync_sound:
  assumes np: "normalizeParams params = (bp, flag)"
    and cn: "nativeGetColumnNamesSync (nativeStatement stmt) (native w) = (Inr cols, s1)"
    and run: "eachSync stmt params w = Some ((out, err), w')"
  shows "\<exists>rows. length rows = length out \<and>
           fst (nativeSteps
                  ((if flag then objectGetSync (nativeStatement stmt)
                    else arrayGetSync (nativeStatement stmt)) (nativeDatabase stmt) bp)
                  (length out) s1) = map (\<lambda>r. Inr (Values r)) rows \<and>
           map (composeRow cols) rows = map Inr out"
proof -
  let ?w1 = "\<lparr>native = s1, calls = calls w @ [CallGetColumnNames]\<rparr>"
  let ?func = "if flag
      then (\<lambda>db p. invoke (CallObjectGet p) (objectGetSync (nativeStatement stmt) db p))
      else (\<lambda>db p. invoke (CallArrayGet p) (arrayGetSync (nativeStatement stmt) db p))"
  have loop: "eachLoop ?func (nativeDatabase stmt) bp cols [] ?w1 = Some ((out, err), w')"
    using run np getColumnNamesSync_ok [OF cn] by (simp add: eachSync_def)
  from eachLoop_sound [OF loop] obtain rows where
    r: "out = map (\<lambda>r. fst (assignColumns cols r 0 emptyObject)) rows"
      "\<forall>r\<in>set rows. length r = length cols"
      "fst (nativeSteps (?func (nativeDatabase stmt) bp) (length rows) ?w1) =
         map (\<lambda>r. Inr (Values r)) rows"
    by auto
  have len: "length rows = length out" using r(1) by simp
  have "fst (nativeSteps
                  ((if flag then objectGetSync (nativeStatement stmt)
                    else arrayGetSync (nativeStatement stmt)) (nativeDatabase stmt) bp)
                  (length out) s1) = map (\<lambda>r. Inr (Values r)) rows"
    using r(3) len by (cases flag) (simp_all add: nativeSteps_invoke)
  moreover have "map (composeRow cols) rows = map Inr out"
    using composeRow_composed [OF r(2)] r(1) by simp
  ultimately show ?thesis using len by blast
qed

lemma eachAsync_sound:
  assumes np: "normalizeParams params = (bp, flag)"
    and cn: "nativeGetColumnNamesAsync (nativeStatement stmt) (native w) = (Inr cols, s1)"
    and run: "eachAsync stmt params w = Some ((out, err), w')"
  shows "\<exists>rows. length rows = length out \<and>
           fst (nativeSteps
                  ((if flag then objectGetAsync (nativeStatement stmt)
                    else arrayGetAsync (nativeStatement stmt)) (nativeDatabase stmt) bp)
                  (length out) s1) = map (\<lambda>r. Inr (Values r)) rows \<and>
           map (composeRow cols) rows = map Inr out"
proof -
  let ?w1 = "\<lparr>native = s1, calls = calls w @ [CallGetColumnNames]\<rparr>"
  let ?func = "if flag
      then (\<lambda>db p. invoke (CallObjectGet p) (objectGetAsync (nativeStatement stmt) db p))
      else (\<lambda>db p. invoke (CallArrayGet p) (arrayGetAsync (nativeStatement stmt) db p))"
  have loop: "eachLoop ?func (nativeDatabase stmt) bp cols [] ?w1 = Some ((out, err), w')"
    using run np getColumnNamesAsync_ok [OF cn] by (simp add: eachAsync_def)
  from eachLoop_sound [OF loop] obtain rows where
    r: "out = map (\<lambda>r. fst (assignColumns cols r 0 emptyObject)) rows"
      "\<forall>r\<in>set rows. length r = length cols"
      "fst (nativeSteps (?func (nativeDatabase stmt) bp) (length rows) ?w1) =
         map (\<lambda>r. Inr (Values r)) rows"
    by auto
  have len: "length rows = length out" using r(1) by simp
  have "fst (nativeSteps
                  ((if flag then objectGetAsync (nativeStatement stmt)
                    else arrayGetAsync (nativeStatement stmt)) (nativeDatabase stmt) bp)
                  (length out) s1) = map (\<lambda>r. Inr (Values r)) rows"
    using r(3) len by (cases flag) (simp_all add: nativeSteps_invoke)
  moreover have "map (composeRow cols) rows = map Inr out"
    using composeRow_composed [OF r(2)] r(1) by simp
  ultimately show ?thesis using len by blast
qed

lemma allSync_result:
  assumes np: "normalizeParams params = (bp, flag)"
    and cn: "nativeGetColumnNamesSync (nativeStatement stmt) (native w) = (Inr cols, s1)"
    and get: "(if flag then objectGetAllSync (nativeStatement stmt)
               else arrayGetAllSync (nativeStatement stmt)) (nativeDatabase stmt) bp s1 = (Inr rows, s2)"
  shows "fst (allSync stmt params w) = composeRows cols rows"
  using np getColumnNamesSync_ok [OF cn] get
  by (cases flag) (simp_all add: allSync_def invoke_def)

lemma allAsync_result:
  assumes np: "normalizeParams params = (bp, flag)"
    and cn: "nativeGetColumnNamesAsync (nativeStatement stmt) (native w) = (Inr cols, s1)"
    and get: "(if flag then objectGetAllAsync (nativeStatement stmt)
               else arrayGetAllAsync (nativeStatement stmt)) (nativeDatabase stmt) bp s1 = (Inr rows, s2)"
  shows "fst (allAsync stmt params w) = composeRows cols rows"
  using np getColumnNamesAsync_ok [OF cn] get
  by (cases flag) (simp_all add: allAsync_def invoke_def)

lemma eachLoop_stops_at_mismatch:
  assumes "nativeSteps (func db bp) (Suc (length rows)) w =
             (map (\<lambda>r. Inr (Values r)) rows @ [Inr (Values bad)], w2)"
    and "\<forall>r\<in>set rows. length r = length cols"
    and "length bad \<noteq> length cols"
  shows "eachLoop func db bp cols yielded w =
           Some ((yielded @ map (\<lambda>r. fst (assignColumns cols r 0 emptyObject)) rows,
                  Some (CountMismatch (length cols) (length bad))), w2)"
  using assms
proof (induction rows arbitrary: yielded w)
  case Nil
  then have "func db bp w = (Inr (Values bad), w2)"
    by (simp split: prod.splits)
  with Nil.prems(3) show ?case
    by (subst eachLoop.simps) (simp add: composeRow_def)
next
  case (Cons r rows)
  obtain x w1 where step: "func db bp w = (x, w1)" by (cases "func db bp w")
  from Cons.prems(1) step have x: "x = Inr (Values r)"
    and rest: "nativeSteps (func db bp) (Suc (length rows)) w1 =
                 (map (\<lambda>r. Inr (Values r)) rows @ [Inr (Values bad)], w2)"
    by (auto split: prod.splits)
  have row: "composeRow cols r = Inr (fst (assignColumns cols r 0 emptyObject))"
    using Cons.prems(2) by (simp add: composeRow_def)
  have "eachLoop func db bp cols (yielded @ [fst (assignColumns cols r 0 emptyObject)]) w1 =
          Some (((yielded @ [fst (assignColumns cols r 0 emptyObject)]) @
                  map (\<lambda>r. fst (assignColumns cols r 0 emptyObject)) rows,
                 Some (CountMismatch (length cols) (length bad))), w2)"
    using Cons.prems by (intro Cons.IH [OF rest]) simp_all
  then show ?case
    by (subst eachLoop.simps) (simp add: step x row)
qed

text \<open>
  Claim C1 says that the facade fetches the column names from the native layer at most once
  per statement and serves every later call from that result. The class has no field to
  keep them in: \<^verbatim>\<open>getColumnNames\<close> is forwarded each time, and two calls on one
  statement reach the native layer twice.
\<close>

theorem column_names_refetched_counterexample:
  "columnNameFetches (snd (getColumnNamesSync (cursorStatement [''a''] AbsentUndefined)
      (snd (getColumnNamesSync (cursorStatement [''a''] AbsentUndefined)
         \<lparr>native = [[JNum 1], [JNum 2]], calls = []\<rparr>)))) = 2 \<and>
   columnNameFetches (snd (getSync (cursorStatement [''a''] AbsentUndefined) []
      (snd (getSync (cursorStatement [''a''] AbsentUndefined) []
         \<lparr>native = [[JNum 1], [JNum 2]], calls = []\<rparr>)))) = 2 \<and>
   calls (snd (getSync (cursorStatement [''a''] AbsentUndefined) []
      (snd (getSync (cursorStatement [''a''] AbsentUndefined) []
         \<lparr>native = [[JNum 1], [JNum 2]], calls = []\<rparr>)))) =
     [CallGetColumnNames, CallArrayGet (JArr []), CallGetColumnNames, CallArrayGet (JArr [])]"
  by (simp add: getSync_def getColumnNamesSync_def invoke_def columnNameFetches_def evals)


text \<open>
  Claim C1, as the code has it. The facade keeps no cache of column names: every call of
  \<^verbatim>\<open>getColumnNames\<close>, \<^verbatim>\<open>get\<close> and \<^verbatim>\<open>all\<close>, blocking or not, sends exactly
  one \<^verbatim>\<open>getColumnNames\<close> request to the native layer, and so does every iteration of
  \<^verbatim>\<open>each\<close> that comes to an end; two successive calls of \<^verbatim>\<open>getColumnNames\<close>, of
  \<^verbatim>\<open>get\<close> or of \<^verbatim>\<open>all\<close> on one statement therefore send two. When the request
  of a call succeeds, the names it answered are the ones that call composes with:
  \<^verbatim>\<open>get\<close> returns \<^verbatim>\<open>composeRow\<close> of them and the fetched value row, \<^verbatim>\<open>all\<close>
  returns \<^verbatim>\<open>composeRows\<close> of them and the fetched rows, and the rows that an ended
  iteration of \<^verbatim>\<open>each\<close> has yielded are \<^verbatim>\<open>composeRow\<close> of them and, position by
  position, the value rows that the native get-one method answered.
\<close>

theorem column_names_fetched_per_call:
  assumes np: "normalizeParams params = (bp, flag)"
  shows
  "columnNameFetches (snd (getColumnNamesSync stmt w)) = Suc (columnNameFetches w) \<and>
   columnNameFetches (snd (getColumnNamesAsync stmt w)) = Suc (columnNameFetches w) \<and>
   columnNameFetches (snd (getSync stmt params w)) = Suc (columnNameFetches w) \<and>
   columnNameFetches (snd (getAsync stmt params w)) = Suc (columnNameFetches w) \<and>
   columnNameFetches (snd (allSync stmt params w)) = Suc (columnNameFetches w) \<and>
   columnNameFetches (snd (allAsync stmt params w)) = Suc (columnNameFetches w) \<and>
   (\<forall>y. eachSync stmt params w = Some y \<longrightarrow>
      columnNameFetches (snd y) = Suc (columnNameFetches w)) \<and>
   (\<forall>y. eachAsync stmt params w = Some y \<longrightarrow>
      columnNameFetches (snd y) = Suc (columnNameFetches w)) \<and>
   columnNameFetches (snd (getColumnNamesSync stmt (snd (getColumnNamesSync stmt w)))) =
     columnNameFetches w + 2 \<and>
   columnNameFetches (snd (getColumnNamesAsync stmt (snd (getColumnNamesAsync stmt w)))) =
     columnNameFetches w + 2 \<and>
   columnNameFetches (snd (getSync stmt params' (snd (getSync stmt params w)))) =
     columnNameFetches w + 2 \<and>
   columnNameFetches (snd (getAsync stmt params' (snd (getAsync stmt params w)))) =
     columnNameFetches w + 2 \<and>
   columnNameFetches (snd (allSync stmt params' (snd (allSync stmt params w)))) =
     columnNameFetches w + 2 \<and>
   columnNameFetches (snd (allAsync stmt params' (snd (allAsync stmt params w)))) =
     columnNameFetches w + 2 \<and>
   (nativeGetColumnNamesSync (nativeStatement stmt) (native w) = (Inr cols, s1) \<and>
    (if flag then objectGetSync (nativeStatement stmt)
     else arrayGetSync (nativeStatement stmt)) (nativeDatabase stmt) bp s1 = (Inr (Values vs), s2) \<longrightarrow>
    fst (getSync stmt params w) =
      (case composeRow cols vs of Inl e \<Rightarrow> Inl e | Inr row \<Rightarrow> Inr (JObj row))) \<and>
   (nativeGetColumnNamesAsync (nativeStatement stmt) (native w) = (Inr cols, s1) \<and>
    (if flag then objectGetAsync (nativeStatement stmt)
     else arrayGetAsync (nativeStatement stmt)) (nativeDatabase stmt) bp s1 = (Inr (Values vs), s2) \<longrightarrow>
    fst (getAsync stmt params w) =
      (case composeRow cols vs of Inl e \<Rightarrow> Inl e | Inr row \<Rightarrow> Inr (JObj row))) \<and>
   (nativeGetColumnNamesSync (nativeStatement stmt) (native w) = (Inr cols, s1) \<and>
    (if flag then objectGetAllSync (nativeStatement stmt)
     else arrayGetAllSync (nativeStatement stmt)) (nativeDatabase stmt) bp s1 = (Inr rows, s2) \<longrightarrow>
    fst (allSync stmt params w) = composeRows cols rows) \<and>
   (nativeGetColumnNamesAsync (nativeStatement stmt) (native w) = (Inr cols, s1) \<and>
    (if flag then objectGetAllAsync (nativeStatement stmt)
     else arrayGetAllAsync (nativeStatement stmt)) (nativeDatabase stmt) bp s1 = (Inr rows, s2) \<longrightarrow>
    fst (allAsync stmt params w) = composeRows cols rows) \<and>
   (nativeGetColumnNamesSync (nativeStatement stmt) (native w) = (Inr cols, s1) \<and>
    eachSync stmt params w = Some ((out, err), w') \<longrightarrow>
    (\<exists>fetched. length fetched = length out \<and>
       fst (nativeSteps
              ((if flag then objectGetSync (nativeStatement stmt)
                else arrayGetSync (nativeStatement stmt)) (nativeDatabase stmt) bp)
              (length out) s1) = map (\<lambda>r. Inr (Values r)) fetched \<and>
       map (composeRow cols) fetched = map Inr out)) \<and>
   (nativeGetColumnNamesAsync (nativeStatement stmt) (native w) = (Inr cols, s1) \<and>
    eachAsync stmt params w = Some ((out, err), w') \<longrightarrow>
    (\<exists>fetched. length fetched = length out \<and>
       fst (nativeSteps
              ((if flag then objectGetAsync (nativeStatement stmt)
                else arrayGetAsync (nativeStatement stmt)) (nativeDatabase stmt) bp)
              (length out) s1) = map (\<lambda>r. Inr (Values r)) fetched \<and>
       map (composeRow cols) fetched = map Inr out))"
proof -
  have counts:
    "columnNameFetches (snd (getColumnNamesSync stmt w)) = Suc (columnNameFetches w)"
    "columnNameFetches (snd (getColumnNamesAsync stmt w)) = Suc (columnNameFetches w)"
    "columnNameFetches (snd (getSync stmt params w)) = Suc (columnNameFetches w)"
    "columnNameFetches (snd (getAsync stmt params w)) = Suc (columnNameFetches w)"
    "columnNameFetches (snd (allSync stmt params w)) = Suc (columnNameFetches w)"
    "columnNameFetches (snd (allAsync stmt params w)) = Suc (columnNameFetches w)"
    by (rule getColumnNamesSync_fetches getColumnNamesAsync_fetches getSync_fetches
        getAsync_fetches allSync_fetches allAsync_fetches)+
  have iterations:
    "\<forall>y. eachSync stmt params w = Some y \<longrightarrow> columnNameFetches (snd y) = Suc (columnNameFetches w)"
    "\<forall>y. eachAsync stmt params w = Some y \<longrightarrow> columnNameFetches (snd y) = Suc (columnNameFetches w)"
    by (simp_all add: eachSync_fetches eachAsync_fetches)
  have twice:
    "columnNameFetches (snd (getColumnNamesSync stmt (snd (getColumnNamesSync stmt w)))) =
       columnNameFetches w + 2"
    "columnNameFetches (snd (getColumnNamesAsync stmt (snd (getColumnNamesAsync stmt w)))) =
       columnNameFetches w + 2"
    "columnNameFetches (snd (getSync stmt params' (snd (getSync stmt params w)))) =
       columnNameFetches w + 2"
    "columnNameFetches (snd (getAsync stmt params' (snd (getAsync stmt params w)))) =
       columnNameFetches w + 2"
    "columnNameFetches (snd (allSync stmt params' (snd (allSync stmt params w)))) =
       columnNameFetches w + 2"
    "columnNameFetches (snd (allAsync stmt params' (snd (allAsync stmt params w)))) =
       columnNameFetches w + 2"
    by (simp_all add: getColumnNamesSync_fetches getColumnNamesAsync_fetches getSync_fetches
        getAsync_fetches allSync_fetches allAsync_fetches)
  have one:
    "nativeGetColumnNamesSync (nativeStatement stmt) (native w) = (Inr cols, s1) \<and>
     (if flag then objectGetSync (nativeStatement stmt)
      else arrayGetSync (nativeStatement stmt)) (nativeDatabase stmt) bp s1 = (Inr (Values vs), s2) \<longrightarrow>
     fst (getSync stmt params w) =
       (case composeRow cols vs of Inl e \<Rightarrow> Inl e | Inr row \<Rightarrow> Inr (JObj row))"
    "nativeGetColumnNamesAsync (nativeStatement stmt) (native w) = (Inr cols, s1) \<and>
     (if flag then objectGetAsync (nativeStatement stmt)
      else arrayGetAsync (nativeStatement stmt)) (nativeDatabase stmt) bp s1 = (Inr (Values vs), s2) \<longrightarrow>
     fst (getAsync stmt params w) =
       (case composeRow cols vs of Inl e \<Rightarrow> Inl e | Inr row \<Rightarrow> Inr (JObj row))"
    using getSync_result [OF np, of stmt w cols s1 "Values vs" s2]
      getAsync_result [OF np, of stmt w cols s1 "Values vs" s2]
    by simp_all
  have every:
    "nativeGetColumnNamesSync (nativeStatement stmt) (native w) = (Inr cols, s1) \<and>
     (if flag then objectGetAllSync (nativeStatement stmt)
      else arrayGetAllSync (nativeStatement stmt)) (nativeDatabase stmt) bp s1 = (Inr rows, s2) \<longrightarrow>
     fst (allSync stmt params w) = composeRows cols rows"
    "nativeGetColumnNamesAsync (nativeStatement stmt) (native w) = (Inr cols, s1) \<and>
     (if flag then objectGetAllAsync (nativeStatement stmt)
      else arrayGetAllAsync (nativeStatement stmt)) (nativeDatabase stmt) bp s1 = (Inr rows, s2) \<longrightarrow>
     fst (allAsync stmt params w) = composeRows cols rows"
    using allSync_result [OF np, of stmt w cols s1 rows s2]
      allAsync_result [OF np, of stmt w cols s1 rows s2]
    by simp_all
  have yielded:
    "nativeGetColumnNamesSync (nativeStatement stmt) (native w) = (Inr cols, s1) \<and>
     eachSync stmt params w = Some ((out, err), w') \<longrightarrow>
     (\<exists>fetched. length fetched = length out \<and>
        fst (nativeSteps
               ((if flag then objectGetSync (nativeStatement stmt)
                 else arrayGetSync (nativeStatement stmt)) (nativeDatabase stmt) bp)
               (length out) s1) = map (\<lambda>r. Inr (Values r)) fetched \<and>
        map (composeRow cols) fetched = map Inr out)"
    "nativeGetColumnNamesAsync (nativeStatement stmt) (native w) = (Inr cols, s1) \<and>
     eachAsync stmt params w = Some ((out, err), w') \<longrightarrow>
     (\<exists>fetched. length fetched = length out \<and>
        fst (nativeSteps
               ((if flag then objectGetAsync (nativeStatement stmt)
                 else arrayGetAsync (nativeStatement stmt)) (nativeDatabase stmt) bp)
               (length out) s1) = map (\<lambda>r. Inr (Values r)) fetched \<and>
        map (composeRow cols) fetched = map Inr out)"
    using eachSync_sound [OF np, of stmt w cols s1 out err w']
      eachAsync_sound [OF np, of stmt w cols s1 out err w']
    by blast+
  from counts iterations twice one every yielded show ?thesis
    by (intro conjI)
qed

theorem column_names_fetched_per_call_witness:
  "eachSync (cursorStatement [''a''] AbsentUndefined) [] \<lparr>native = [[JNum 1], [JNum 2]], calls = []\<rparr> =
     Some (([[(''a'', JNum 1)], [(''a'', JNum 2)]], None),
           \<lparr>native = [],
            calls = [CallGetColumnNames, CallArrayGet (JArr []), CallArrayGet (JArr []),
                     CallArrayGet (JArr [])]\<rparr>) \<and>
   columnNameFetches
     \<lparr>native = ([] :: jsval list list),
      calls = [CallGetColumnNames, CallArrayGet (JArr []), CallArrayGet (JArr []),
               CallArrayGet (JArr [])]\<rparr> =
     Suc (columnNameFetches \<lparr>native = [[JNum 1], [JNum 2]], calls = []\<rparr>) \<and>
   fst (getSync (cursorStatement [''a''] AbsentUndefined) []
     \<lparr>native = [[JNum 1], [JNum 2]], calls = []\<rparr>) = Inr (JObj [(''a'', JNum 1)]) \<and>
   fst (allSync (cursorStatement [''a''] AbsentUndefined) []
     \<lparr>native = [[JNum 1], [JNum 2]], calls = []\<rparr>) = Inr [[(''a'', JNum 1)], [(''a'', JNum 2)]] \<and>
   (\<exists>fetched. length fetched = 2 \<and>
      fst (nativeSteps (cursorGet AbsentUndefined () (JArr [])) 2 [[JNum 1], [JNum 2]]) =
        map (\<lambda>r. Inr (Values r)) fetched \<and>
      map (composeRow [''a'']) fetched = map Inr [[(''a'', JNum 1)], [(''a'', JNum 2)]])"
proof -
  let ?stmt = "cursorStatement [''a''] AbsentUndefined"
  let ?w = "\<lparr>native = [[JNum 1], [JNum 2]], calls = []\<rparr>"
  let ?w' = "\<lparr>native = ([] :: jsval list list),
      calls = [CallGetColumnNames, CallArrayGet (JArr []), CallArrayGet (JArr []),
               CallArrayGet (JArr [])]\<rparr>"
  let ?out = "[[(''a'', JNum 1)], [(''a'', JNum 2)]]"
  have np: "normalizeParams [] = (JArr [], False)"
    by (simp add: normalizeParams_def js_index_def)
  have run: "eachSync ?stmt [] ?w = Some ((?out, None), ?w')"
    using eachSync_yields [of "[]" "JArr []" False ?stmt ?w "[''a'']" "[[JNum 1], [JNum 2]]"
        "[[JNum 1], [JNum 2]]" AbsentUndefined "[]"]
    by (simp add: evals numeral_2_eq_2)
  note one = column_names_fetched_per_call [where params = "[]" and bp = "JArr []"
      and flag = False and stmt = ?stmt and w = ?w and cols = "[''a'']"
      and ?s1.0 = "[[JNum 1], [JNum 2]]" and vs = "[JNum 1]" and ?s2.0 = "[[JNum 2]]"
      and out = ?out and err = None and w' = ?w', OF np]
  note every = column_names_fetched_per_call [where params = "[]" and bp = "JArr []"
      and flag = False and stmt = ?stmt and w = ?w and cols = "[''a'']"
      and ?s1.0 = "[[JNum 1], [JNum 2]]" and rows = "[[JNum 1], [JNum 2]]" and ?s2.0 = "[]", OF np]
  from one have "\<forall>y. eachSync ?stmt [] ?w = Some y \<longrightarrow>
      columnNameFetches (snd y) = Suc (columnNameFetches ?w)"
    by blast
  with run have count: "columnNameFetches ?w' = Suc (columnNameFetches ?w)"
    by simp
  from one have "nativeGetColumnNamesSync (nativeStatement ?stmt) (native ?w) =
        (Inr [''a''], [[JNum 1], [JNum 2]]) \<and>
      (if False then objectGetSync (nativeStatement ?stmt)
       else arrayGetSync (nativeStatement ?stmt)) (nativeDatabase ?stmt) (JArr [])
        [[JNum 1], [JNum 2]] = (Inr (Values [JNum 1]), [[JNum 2]]) \<longrightarrow>
      fst (getSync ?stmt [] ?w) =
        (case composeRow [''a''] [JNum 1] of Inl e \<Rightarrow> Inl e | Inr row \<Rightarrow> Inr (JObj row))"
    by blast
  then have got: "fst (getSync ?stmt [] ?w) = Inr (JObj [(''a'', JNum 1)])"
    by (simp add: evals)
  from every have "nativeGetColumnNamesSync (nativeStatement ?stmt) (native ?w) =
        (Inr [''a''], [[JNum 1], [JNum 2]]) \<and>
      (if False then objectGetAllSync (nativeStatement ?stmt)
       else arrayGetAllSync (nativeStatement ?stmt)) (nativeDatabase ?stmt) (JArr [])
        [[JNum 1], [JNum 2]] = (Inr [[JNum 1], [JNum 2]], []) \<longrightarrow>
      fst (allSync ?stmt [] ?w) = composeRows [''a''] [[JNum 1], [JNum 2]]"
    by blast
  then have all: "fst (allSync ?stmt [] ?w) = Inr ?out"
    by (simp add: evals)
  from one have "nativeGetColumnNamesSync (nativeStatement ?stmt) (native ?w) =
        (Inr [''a''], [[JNum 1], [JNum 2]]) \<and>
      eachSync ?stmt [] ?w = Some ((?out, None), ?w') \<longrightarrow>
      (\<exists>fetched. length fetched = length ?out \<and>
         fst (nativeSteps
                ((if False then objectGetSync (nativeStatement ?stmt)
                  else arrayGetSync (nativeStatement ?stmt)) (nativeDatabase ?stmt) (JArr []))
                (length ?out) [[JNum 1], [JNum 2]]) = map (\<lambda>r. Inr (Values r)) fetched \<and>
         map (composeRow [''a'']) fetched = map Inr ?out)"
    by blast
  with run have "\<exists>fetched. length fetched = 2 \<and>
      fst (nativeSteps (cursorGet AbsentUndefined () (JArr [])) 2 [[JNum 1], [JNum 2]]) =
        map (\<lambda>r. Inr (Values r)) fetched \<and>
      map (composeRow [''a'']) fetched = map Inr ?out"
    by (simp add: cursor_fields numeral_2_eq_2)
  with run count got all show ?thesis
    by (intro conjI)
qed

text \<open>
  Claim C7 says that \<^verbatim>\<open>each\<close> yields exactly \<open>n\<close> composed rows and then ends
  whenever the native get-one method answers \<open>n\<close> rows and then an absent marker. It
  does not when one of the rows has another number of values than there are column names:
  \<^verbatim>\<open>composeRow\<close> throws there, and the iteration stops with that error after the rows
  before it.
\<close>

theorem each_stops_at_mismatch_counterexample:
  "nativeSteps (arrayGetSync (cursorNative [''a''] AbsentUndefined) () (JArr [])) 4
     [[JNum 1], [JNum 2, JNum 3], [JNum 4]] =
     ([Inr (Values [JNum 1]), Inr (Values [JNum 2, JNum 3]), Inr (Values [JNum 4]),
       Inr AbsentUndefined], []) \<and>
   eachSync (cursorStatement [''a''] AbsentUndefined) []
     \<lparr>native = [[JNum 1], [JNum 2, JNum 3], [JNum 4]], calls = []\<rparr> =
   Some (([[(''a'', JNum 1)]], Some (CountMismatch 1 2)),
         \<lparr>native = [[JNum 4]],
          calls = [CallGetColumnNames, CallArrayGet (JArr []), CallArrayGet (JArr [])]\<rparr>)"
proof -
  let ?stmt = "cursorStatement [''a''] AbsentUndefined"
  let ?w = "\<lparr>native = [[JNum 1], [JNum 2, JNum 3], [JNum 4]], calls = []\<rparr>"
  let ?w1 = "\<lparr>native = [[JNum 1], [JNum 2, JNum 3], [JNum 4]], calls = [CallGetColumnNames]\<rparr>"
  let ?w2 = "\<lparr>native = [[JNum 4]],
          calls = [CallGetColumnNames, CallArrayGet (JArr []), CallArrayGet (JArr [])]\<rparr>"
  let ?func = "\<lambda>db p. invoke (CallArrayGet p) (arrayGetSync (nativeStatement ?stmt) db p)"
  have "nativeSteps (?func () (JArr [])) (Suc (length [[JNum 1]])) ?w1 =
      (map (\<lambda>r. Inr (Values r)) [[JNum 1]] @ [Inr (Values [JNum 2, JNum 3])], ?w2)"
    by (simp add: invoke_def evals)
  from eachLoop_stops_at_mismatch [of ?func "()" "JArr []" "[[JNum 1]]" ?w1
      "[JNum 2, JNum 3]" ?w2 "[''a'']" "[]", OF this]
  have "eachLoop ?func () (JArr []) [''a''] [] ?w1 =
      Some (([[(''a'', JNum 1)]], Some (CountMismatch 1 2)), ?w2)"
    by (simp add: evals)
  then have "eachSync ?stmt [] ?w = Some (([[(''a'', JNum 1)]], Some (CountMismatch 1 2)), ?w2)"
    by (simp add: eachSync_def getColumnNamesSync_def invoke_def evals)
  moreover have "nativeSteps (arrayGetSync (cursorNative [''a''] AbsentUndefined) () (JArr [])) 4
     [[JNum 1], [JNum 2, JNum 3], [JNum 4]] =
     ([Inr (Values [JNum 1]), Inr (Values [JNum 2, JNum 3]), Inr (Values [JNum 4]),
       Inr AbsentUndefined], [])"
    by (simp add: evals eval_nat_numeral)
  ultimately show ?thesis by simp
qed

text \<open>
  Claim C7, as the code has it: when the column names are fetched and the native get-one
  method, called again and again with the normalized parameters, answers the \<open>n\<close> rows
  of a result set and then an absent marker (\<^verbatim>\<open>null\<close> or \<^verbatim>\<open>undefined\<close>), each row with as many values
  as there are column names, then \<^verbatim>\<open>eachSync\<close> and \<^verbatim>\<open>eachAsync\<close> come to an end
  after yielding exactly the \<open>n\<close> composed rows in fetch order. They make one
  \<^verbatim>\<open>getColumnNames\<close> call and then \<open>n + 1\<close> get calls, every one handed the
  normalized parameters of the call, and leave the native state where the last call left
  it.
\<close>

theorem each_yields_result_set:
  assumes "normalizeParams params = (bp, flag)"
    and "isAbsent marker"
    and "\<forall>r\<in>set rows. length r = length cols"
  shows "(nativeGetColumnNamesSync (nativeStatement stmt) (native w) = (Inr cols, s1) \<and>
          nativeSteps
            ((if flag then objectGetSync (nativeStatement stmt)
              else arrayGetSync (nativeStatement stmt)) (nativeDatabase stmt) bp)
            (Suc (length rows)) s1 =
          (map (\<lambda>r. Inr (Values r)) rows @ [Inr marker], s2) \<longrightarrow>
          eachSync stmt params w =
            Some ((map (\<lambda>r. fst (assignColumns cols r 0 emptyObject)) rows, None),
                  \<lparr>native = s2,
                   calls = calls w @ CallGetColumnNames #
                     replicate (Suc (length rows))
                       ((if flag then CallObjectGet else CallArrayGet) bp)\<rparr>)) \<and>
         (nativeGetColumnNamesAsync (nativeStatement stmt) (native w) = (Inr cols, s1) \<and>
          nativeSteps
            ((if flag then objectGetAsync (nativeStatement stmt)
              else arrayGetAsync (nativeStatement stmt)) (nativeDatabase stmt) bp)
            (Suc (length rows)) s1 =
          (map (\<lambda>r. Inr (Values r)) rows @ [Inr marker], s2) \<longrightarrow>
          eachAsync stmt params w =
            Some ((map (\<lambda>r. fst (assignColumns cols r 0 emptyObject)) rows, None),
                  \<lparr>native = s2,
                   calls = calls w @ CallGetColumnNames #
                     replicate (Suc (length rows))
                       ((if flag then CallObjectGet else CallArrayGet) bp)\<rparr>)) \<and>
         map (composeRow cols) rows = map (\<lambda>r. Inr (fst (assignColumns cols r 0 emptyObject))) rows"
  using assms eachSync_yields [of params bp flag stmt w cols s1 rows marker s2]
    eachAsync_yields [of params bp flag stmt w cols s1 rows marker s2]
    composeRow_matching [of rows cols]
  by blast

theorem each_yields_result_set_witness:
  "eachSync (cursorStatement [''a'', ''b''] AbsentUndefined) []
     \<lparr>native = [[JNum 1, JNum 2], [JNum 3, JNum 4], [JNum 5, JNum 6]], calls = []\<rparr> =
   Some (([[(''a'', JNum 1), (''b'', JNum 2)], [(''a'', JNum 3), (''b'', JNum 4)],
           [(''a'', JNum 5), (''b'', JNum 6)]], None),
         \<lparr>native = [],
          calls = [CallGetColumnNames, CallArrayGet (JArr []), CallArrayGet (JArr []),
                   CallArrayGet (JArr []), CallArrayGet (JArr [])]\<rparr>) \<and>
   eachAsync (cursorStatement [''a'', ''b''] AbsentUndefined) []
     \<lparr>native = [[JNum 1, JNum 2], [JNum 3, JNum 4], [JNum 5, JNum 6]], calls = []\<rparr> =
   Some (([[(''a'', JNum 1), (''b'', JNum 2)], [(''a'', JNum 3), (''b'', JNum 4)],
           [(''a'', JNum 5), (''b'', JNum 6)]], None),
         \<lparr>native = [],
          calls = [CallGetColumnNames, CallArrayGet (JArr []), CallArrayGet (JArr []),
                   CallArrayGet (JArr []), CallArrayGet (JArr [])]\<rparr>)"
  using each_yields_result_set [of "[]" "JArr []" False AbsentUndefined
      "[[JNum 1, JNum 2], [JNum 3, JNum 4], [JNum 5, JNum 6]]" "[''a'', ''b'']"
      "cursorStatement [''a'', ''b''] AbsentUndefined"
      "\<lparr>native = [[JNum 1, JNum 2], [JNum 3, JNum 4], [JNum 5, JNum 6]], calls = []\<rparr>"
      "[[JNum 1, JNum 2], [JNum 3, JNum 4], [JNum 5, JNum 6]]" "[]"]
  by (simp add: evals numeral_3_eq_3)

text \<open>
  Claim C9: when the column names are fetched and the native get-one method answers
  \<^verbatim>\<open>null\<close> or \<^verbatim>\<open>undefined\<close>, \<^verbatim>\<open>getSync\<close> and \<^verbatim>\<open>getAsync\<close> return
  \<^verbatim>\<open>null\<close>; they never return \<^verbatim>\<open>undefined\<close>; and a row they return was composed
  from a value row that the native method answered.
\<close>

theorem get_absent_is_null:
  assumes np: "normalizeParams params = (bp, flag)"
  shows "(nativeGetColumnNamesSync (nativeStatement stmt) (native w) = (Inr cols, s1) \<and>
          (if flag then objectGetSync (nativeStatement stmt)
           else arrayGetSync (nativeStatement stmt)) (nativeDatabase stmt) bp s1 = (Inr f, s2) \<and>
          isAbsent f \<longrightarrow>
          fst (getSync stmt params w) = Inr JNull) \<and>
         (nativeGetColumnNamesAsync (nativeStatement stmt) (native w) = (Inr cols, s1) \<and>
          (if flag then objectGetAsync (nativeStatement stmt)
           else arrayGetAsync (nativeStatement stmt)) (nativeDatabase stmt) bp s1 = (Inr f, s2) \<and>
          isAbsent f \<longrightarrow>
          fst (getAsync stmt params w) = Inr JNull) \<and>
         fst (getSync stmt params w) \<noteq> Inr JUndefined \<and>
         fst (getAsync stmt params w) \<noteq> Inr JUndefined \<and>
         (\<forall>row. fst (getSync stmt params w) = Inr (JObj row) \<longrightarrow>
            (\<exists>cols s1 vs s2.
               nativeGetColumnNamesSync (nativeStatement stmt) (native w) = (Inr cols, s1) \<and>
               (if flag then objectGetSync (nativeStatement stmt)
                else arrayGetSync (nativeStatement stmt)) (nativeDatabase stmt) bp s1 =
                 (Inr (Values vs), s2) \<and>
               composeRow cols vs = Inr row)) \<and>
         (\<forall>row. fst (getAsync stmt params w) = Inr (JObj row) \<longrightarrow>
            (\<exists>cols s1 vs s2.
               nativeGetColumnNamesAsync (nativeStatement stmt) (native w) = (Inr cols, s1) \<and>
               (if flag then objectGetAsync (nativeStatement stmt)
                else arrayGetAsync (nativeStatement stmt)) (nativeDatabase stmt) bp s1 =
                 (Inr (Values vs), s2) \<and>
               composeRow cols vs = Inr row))"
proof (intro conjI impI allI)
  assume "nativeGetColumnNamesSync (nativeStatement stmt) (native w) = (Inr cols, s1) \<and>
          (if flag then objectGetSync (nativeStatement stmt)
           else arrayGetSync (nativeStatement stmt)) (nativeDatabase stmt) bp s1 = (Inr f, s2) \<and>
          isAbsent f"
  then show "fst (getSync stmt params w) = Inr JNull"
    using getSync_result [OF np, of stmt w cols s1 f s2] by (cases f) simp_all
next
  assume "nativeGetColumnNamesAsync (nativeStatement stmt) (native w) = (Inr cols, s1) \<and>
          (if flag then objectGetAsync (nativeStatement stmt)
           else arrayGetAsync (nativeStatement stmt)) (nativeDatabase stmt) bp s1 = (Inr f, s2) \<and>
          isAbsent f"
  then show "fst (getAsync stmt params w) = Inr JNull"
    using getAsync_result [OF np, of stmt w cols s1 f s2] by (cases f) simp_all
next
  show "fst (getSync stmt params w) \<noteq> Inr JUndefined"
    using getSync_value [OF np, of stmt w JUndefined] by auto
next
  show "fst (getAsync stmt params w) \<noteq> Inr JUndefined"
    using getAsync_value [OF np, of stmt w JUndefined] by auto
next
  fix row
  assume "fst (getSync stmt params w) = Inr (JObj row)"
  from getSync_value [OF np this]
  show "\<exists>cols s1 vs s2.
               nativeGetColumnNamesSync (nativeStatement stmt) (native w) = (Inr cols, s1) \<and>
               (if flag then objectGetSync (nativeStatement stmt)
                else arrayGetSync (nativeStatement stmt)) (nativeDatabase stmt) bp s1 =
                 (Inr (Values vs), s2) \<and>
               composeRow cols vs = Inr row"
    by auto
next
  fix row
  assume "fst (getAsync stmt params w) = Inr (JObj row)"
  from getAsync_value [OF np this]
  show "\<exists>cols s1 vs s2.
               nativeGetColumnNamesAsync (nativeStatement stmt) (native w) = (Inr cols, s1) \<and>
               (if flag then objectGetAsync (nativeStatement stmt)
                else arrayGetAsync (nativeStatement stmt)) (nativeDatabase stmt) bp s1 =
                 (Inr (Values vs), s2) \<and>
               composeRow cols vs = Inr row"
    by auto
qed

theorem get_absent_is_null_witness:
  "fst (getSync (cursorStatement [''a''] AbsentUndefined) [JNum 5] \<lparr>native = [], calls = []\<rparr>) = Inr JNull \<and>
   fst (getAsync (cursorStatement [''a''] AbsentUndefined) [JNum 5] \<lparr>native = [], calls = []\<rparr>) = Inr JNull \<and>
   fst (getSync (cursorStatement [''a''] AbsentNull) [JNum 5] \<lparr>native = [], calls = []\<rparr>) = Inr JNull \<and>
   fst (getAsync (cursorStatement [''a''] AbsentNull) [JNum 5] \<lparr>native = [], calls = []\<rparr>) = Inr JNull"
  using get_absent_is_null [of "[JNum 5]" "JArr [JNum 5]" False
          "cursorStatement [''a''] AbsentUndefined" "\<lparr>native = [], calls = []\<rparr>" "[''a'']" "[]"
          AbsentUndefined "[]"]
        get_absent_is_null [of "[JNum 5]" "JArr [JNum 5]" False
          "cursorStatement [''a''] AbsentNull" "\<lparr>native = [], calls = []\<rparr>" "[''a'']" "[]"
          AbsentNull "[]"]
  by (simp add: normalizeParams_def js_index_def cursor_fields cursorGet_def)

end
